theory Spec2Isabelle
  imports Main
begin

section \<open>Go values shared by the model\<close>

text \<open>
  A Go \<open>error\<close> value. The two sentinels are package variables of \<open>models\<close> and
  \<open>services\<close>; \<open>Errorf\<close> is an error made by \<open>errors.New\<close> or \<open>fmt.Errorf\<close>
  without \<open>%w\<close> (its text), \<open>Wrapf\<close> one made by \<open>fmt.Errorf\<close> with \<open>%w\<close> (its
  whole text and the error it wraps).
\<close>

datatype go_error =
    ErrMissingRegion
  | ErrAccessDeniedException
  | Errorf string
  | Wrapf string go_error

text \<open>
  \<open>err.Error()\<close>. The texts of the two sentinels are declared in other packages;
  no property below depends on them.
\<close>

primrec Error :: "go_error \<Rightarrow> string" where
  "Error ErrMissingRegion = ''missing default region''"
| "Error ErrAccessDeniedException = ''access denied. please check your IAM policy''"
| "Error (Errorf s) = s"
| "Error (Wrapf s e) = s"

text \<open>\<open>errors.Is(err, target)\<close>: the error itself or one it wraps, down the chain.\<close>

primrec errors_Is :: "go_error \<Rightarrow> go_error \<Rightarrow> bool" where
  "errors_Is ErrMissingRegion target = (ErrMissingRegion = target)"
| "errors_Is ErrAccessDeniedException target = (ErrAccessDeniedException = target)"
| "errors_Is (Errorf s) target = (Errorf s = target)"
| "errors_Is (Wrapf s e) target = (Wrapf s e = target \<or> errors_Is e target)"

text \<open>The line feed of \<open>"\n"\<close> in a Go string literal.\<close>

definition newline :: char where
  "newline = CHR 0x0A"

section \<open>Settings, configurations and capability clients\<close>

text \<open>
  \<open>models.CloudWatchSettings\<close> with its embedded \<open>GrafanaSettings\<close>: the fields that
  \<open>cloudwatch.go\<close> and the route handlers read.
\<close>

record awsds_AuthSettings =
  ExternalID :: string
  SecureSocksDSProxyEnabled :: bool
  ListMetricsPageLimit :: int

record CloudWatchSettings =
  Region :: string
  Profile :: string
  AuthType :: nat
  AssumeRoleARN :: string
  Endpoint :: string
  AccessKey :: string
  SecretKey :: string
  SecureSocksProxyEnabled :: bool
  GrafanaSettings :: awsds_AuthSettings

text \<open>The zero value \<open>models.CloudWatchSettings{}\<close>.\<close>

definition CloudWatchSettings_zero :: CloudWatchSettings where
  "CloudWatchSettings_zero =
     \<lparr>Region = [], Profile = [], AuthType = 0, AssumeRoleARN = [], Endpoint = [],
      AccessKey = [], SecretKey = [], SecureSocksProxyEnabled = False,
      GrafanaSettings =
        \<lparr>ExternalID = [], SecureSocksDSProxyEnabled = False, ListMetricsPageLimit = 0\<rparr>\<rparr>"

type_synonym proxy_Options = string

text \<open>
  \<open>awsauth.Settings\<close>, the argument of the configuration provider. The fields that share
  a name with a field of \<open>CloudWatchSettings\<close> carry the prefix \<open>auth_\<close>.
\<close>

record awsauth_Settings =
  CredentialsProfile :: string
  LegacyAuthType :: nat
  auth_AssumeRoleARN :: string
  auth_ExternalID :: string
  auth_Endpoint :: string
  auth_Region :: string
  auth_AccessKey :: string
  auth_SecretKey :: string
  ProxyOptions :: "proxy_Options option"

text \<open>
  Modelled from the spec: the capability constructors \<open>NewOAMAPI\<close>, \<open>NewCWClient\<close>,
  \<open>clients.NewMetricsClient\<close>, \<open>NewLogsAPI\<close> and \<open>NewEC2API\<close> are declared in
  other packages. Section 4.1 of the spec makes each a pure constructor over a resolved
  configuration, so a client is the constructor applied to the configuration it was built
  from. The type \<open>'cfg\<close> stands for \<open>aws.Config\<close>.
\<close>

datatype 'cfg OAMAPI = NewOAMAPI 'cfg
datatype 'cfg CWClient = NewCWClient 'cfg
datatype 'cfg MetricsClient = NewMetricsClient "'cfg CWClient" int
datatype 'cfg LogsAPI = NewLogsAPI 'cfg
datatype 'cfg EC2API = NewEC2API 'cfg

datatype log_Logger = NewLoggerWith string string | FromContext log_Logger

text \<open>
  The \<open>DataSource\<close> struct. \<open>AWSConfigProvider\<close> is the provider's \<open>GetConfig\<close>
  method; the tag value cache is read by none of the functions modelled here. The instance
  manager \<open>ds.im\<close> hands out \<open>DataSource\<close> values itself, so it is passed beside the
  receiver, as the function \<open>im.Get\<close> of the plugin context.
\<close>

record 'cfg DataSource =
  Settings :: CloudWatchSettings
  ProxyOpts :: "proxy_Options option"
  AWSConfigProvider :: "awsauth_Settings \<Rightarrow> go_error + 'cfg"
  logger :: log_Logger

text \<open>
  \<open>models.RequestContext\<close>: four nullable capability clients, the settings and a
  nullable logger. Its settings and logger fields carry the prefix \<open>rc_\<close>.
\<close>

record 'cfg RequestContext =
  OAMAPIProvider :: "'cfg OAMAPI option"
  MetricsClientProvider :: "'cfg MetricsClient option"
  LogsAPIProvider :: "'cfg LogsAPI option"
  EC2APIProvider :: "'cfg EC2API option"
  rc_Settings :: CloudWatchSettings
  rc_Logger :: "log_Logger option"

text \<open>The zero value \<open>models.RequestContext{}\<close>.\<close>

definition RequestContext_zero :: "'cfg RequestContext" where
  "RequestContext_zero =
     \<lparr>OAMAPIProvider = None, MetricsClientProvider = None, LogsAPIProvider = None,
      EC2APIProvider = None, rc_Settings = CloudWatchSettings_zero, rc_Logger = None\<rparr>"

record ListMetricsInput =
  Namespace :: string
  MetricName :: string

record DescribeLogGroupsInput =
  Limit :: int

text \<open>
  The calls that \<open>cloudwatch.go\<close> makes to its collaborators, in the order made: the
  instance manager, the configuration provider and the two provider APIs of the health
  check. Every function below returns its Go result together with the calls it made.
\<close>

datatype ('pc, 'cfg) call =
    Call_im_Get 'pc
  | Call_GetConfig awsauth_Settings
  | Call_ListMetricsWithPageLimit "'cfg MetricsClient" ListMetricsInput
  | Call_DescribeLogGroups "'cfg LogsAPI" DescribeLogGroupsInput

section \<open>cloudwatch.go\<close>

definition defaultRegion :: string where
  "defaultRegion = ''default''"

definition logsQueryMode :: string where
  "logsQueryMode = ''Logs''"

definition annotationQuery :: string where
  "annotationQuery = ''annotationQuery''"

definition logAction :: string where
  "logAction = ''logAction''"

definition timeSeriesQuery :: string where
  "timeSeriesQuery = ''timeSeriesQuery''"

definition headerFromExpression :: string where
  "headerFromExpression = ''X-Grafana-From-Expr''"

definition headerFromAlert :: string where
  "headerFromAlert = ''FromAlert''"

text \<open>
  \<open>newAWSConfig\<close>. On an error Go returns \<open>aws.Config{}\<close> beside it, which no caller
  reads: the result is the error or the configuration.
\<close>

definition newAWSConfig ::
  "'cfg DataSource \<Rightarrow> string \<Rightarrow> (go_error + 'cfg) \<times> ('pc, 'cfg) call list" where
  "newAWSConfig ds region =
     (if region = defaultRegion \<and> length (Region (Settings ds)) = 0
      then (Inl ErrMissingRegion, [])
      else
        let region = (if region = defaultRegion then Region (Settings ds) else region);
            authSettings =
              \<lparr>CredentialsProfile = Profile (Settings ds),
               LegacyAuthType = AuthType (Settings ds),
               auth_AssumeRoleARN = AssumeRoleARN (Settings ds),
               auth_ExternalID = ExternalID (GrafanaSettings (Settings ds)),
               auth_Endpoint = Endpoint (Settings ds),
               auth_Region = region,
               auth_AccessKey = AccessKey (Settings ds),
               auth_SecretKey = SecretKey (Settings ds),
               ProxyOptions = None\<rparr>;
            authSettings =
              (if SecureSocksDSProxyEnabled (GrafanaSettings (Settings ds))
                  \<and> SecureSocksProxyEnabled (Settings ds)
               then authSettings\<lparr>ProxyOptions := ProxyOpts ds\<rparr>
               else authSettings)
        in (AWSConfigProvider ds authSettings, [Call_GetConfig authSettings]))"

definition getInstance ::
  "('pc \<Rightarrow> go_error + 'cfg DataSource) \<Rightarrow> 'pc
     \<Rightarrow> (go_error + 'cfg DataSource) \<times> ('pc, 'cfg) call list" where
  "getInstance im pluginCtx = (im pluginCtx, [Call_im_Get pluginCtx])"

text \<open>
  \<open>getRequestContext\<close> returns the Go pair: a request context and an error or \<open>nil\<close>.
  The variable \<open>cfg\<close> is assigned twice in the source; \<open>cfg1\<close> is its first value and
  \<open>cfg2\<close> its second.
\<close>

definition getRequestContext ::
  "('pc \<Rightarrow> go_error + 'cfg DataSource) \<Rightarrow> 'cfg DataSource \<Rightarrow> 'pc \<Rightarrow> string
     \<Rightarrow> ('cfg RequestContext \<times> go_error option) \<times> ('pc, 'cfg) call list" where
  "getRequestContext im ds pluginCtx region =
     (case getInstance im pluginCtx of
        (Inl err, t0) \<Rightarrow> ((RequestContext_zero, Some err), t0)
      | (Inr instance, t0) \<Rightarrow>
          let region = (if region = defaultRegion then Region (Settings instance) else region)
          in (case newAWSConfig instance defaultRegion of
                (Inl err, t1) \<Rightarrow> ((RequestContext_zero, Some err), t0 @ t1)
              | (Inr cfg1, t1) \<Rightarrow>
                  let ec2client = NewEC2API cfg1
                  in (case newAWSConfig instance region of
                        (Inl err, t2) \<Rightarrow> ((RequestContext_zero, Some err), t0 @ t1 @ t2)
                      | (Inr cfg2, t2) \<Rightarrow>
                          ((\<lparr>OAMAPIProvider = Some (NewOAMAPI cfg2),
                             MetricsClientProvider =
                               Some (NewMetricsClient (NewCWClient cfg2)
                                 (ListMetricsPageLimit (GrafanaSettings (Settings instance)))),
                             LogsAPIProvider = Some (NewLogsAPI cfg2),
                             EC2APIProvider = Some ec2client,
                             rc_Settings = Settings instance,
                             rc_Logger = Some (FromContext (logger ds))\<rparr>, None),
                           t0 @ t1 @ t2))))"

definition getRequestContextOnlySettings ::
  "('pc \<Rightarrow> go_error + 'cfg DataSource) \<Rightarrow> 'cfg DataSource \<Rightarrow> 'pc \<Rightarrow> string
     \<Rightarrow> ('cfg RequestContext \<times> go_error option) \<times> ('pc, 'cfg) call list" where
  "getRequestContextOnlySettings im ds pluginCtx region =
     (case getInstance im pluginCtx of
        (Inl err, t0) \<Rightarrow> ((RequestContext_zero, Some err), t0)
      | (Inr instance, t0) \<Rightarrow>
          ((\<lparr>OAMAPIProvider = None,
             MetricsClientProvider = None,
             LogsAPIProvider = None,
             EC2APIProvider = None,
             rc_Settings = Settings instance,
             rc_Logger = Some (FromContext (logger ds))\<rparr>, None), t0))"

text \<open>\<open>getAWSConfig\<close>: the instance of the plugin context, then its configuration.\<close>

definition getAWSConfig ::
  "('pc \<Rightarrow> go_error + 'cfg DataSource) \<Rightarrow> 'pc \<Rightarrow> string
     \<Rightarrow> (go_error + 'cfg) \<times> ('pc, 'cfg) call list" where
  "getAWSConfig im pluginCtx region =
     (case getInstance im pluginCtx of
        (Inl err, t0) \<Rightarrow> (Inl err, t0)
      | (Inr instance, t0) \<Rightarrow>
          (case newAWSConfig instance region of (r, t1) \<Rightarrow> (r, t0 @ t1)))"

subsection \<open>QueryData\<close>

text \<open>
  \<open>backend.DataQuery\<close> and \<open>backend.QueryDataRequest\<close>, with the fields that
  \<open>QueryData\<close> reads, and \<open>DataQueryJson\<close> with the two fields of the decoded model
  that decide the route.
\<close>

record DataQuery =
  RefID :: string
  JSON :: string

record DataQueryJson =
  QueryMode :: string
  Type :: string

record 'pc QueryDataRequest =
  PluginContext :: 'pc
  Headers :: "string \<rightharpoonup> string"
  Queries :: "DataQuery list"

text \<open>
  The four execution paths are collaborators of \<open>QueryData\<close>, which returns whatever the
  chosen one returns: the model is the call it ends in, with its arguments.
\<close>

datatype 'pc dispatch =
    executeSyncLogQuery "'pc QueryDataRequest"
  | executeAnnotationQuery 'pc DataQueryJson DataQuery
  | executeLogActions "'pc QueryDataRequest"
  | executeTimeSeriesQuery "'pc QueryDataRequest"

text \<open>
  What a call of \<open>QueryData\<close> comes to: the runtime panic of \<open>req.Queries[0]\<close> on an
  empty slice, the error of \<open>json.Unmarshal\<close>, or the result of an execution path.
\<close>

datatype 'pc QueryData_result =
    Panic_index_out_of_range
  | Return_error go_error
  | Return_of "'pc dispatch"

text \<open>
  \<open>json_Unmarshal\<close> decodes the bytes of a query into the model; \<open>GetHTTPHeader\<close> is
  the request's method of that name, which reads the header map of the request. The
  context that \<open>instrumentContext\<close> prepares for the logger has no part in the result.
\<close>

definition QueryData ::
  "(string \<Rightarrow> go_error + DataQueryJson) \<Rightarrow> ((string \<rightharpoonup> string) \<Rightarrow> string \<Rightarrow> string)
     \<Rightarrow> 'pc QueryDataRequest \<Rightarrow> 'pc QueryData_result" where
  "QueryData json_Unmarshal GetHTTPHeader req =
     (case Queries req of
        [] \<Rightarrow> Panic_index_out_of_range
      | q # _ \<Rightarrow>
          (case json_Unmarshal (JSON q) of
             Inl err \<Rightarrow> Return_error err
           | Inr model \<Rightarrow>
               let fromAlert = (Headers req headerFromAlert \<noteq> None);
                   fromExpression = (GetHTTPHeader (Headers req) headerFromExpression \<noteq> []);
                   queryMode = (if QueryMode model \<noteq> [] then QueryMode model else []);
                   fromPublicDashboard = (Type model = [] \<and> queryMode = logsQueryMode);
                   isSyncLogQuery =
                     (((fromAlert \<or> fromExpression) \<and> queryMode = logsQueryMode)
                        \<or> fromPublicDashboard)
               in if isSyncLogQuery then Return_of (executeSyncLogQuery req)
                  else if Type model = annotationQuery
                    then Return_of (executeAnnotationQuery (PluginContext req) model q)
                  else if Type model = logAction then Return_of (executeLogActions req)
                  else if Type model = timeSeriesQuery
                    then Return_of (executeTimeSeriesQuery req)
                  else Return_of (executeTimeSeriesQuery req)))"

text \<open>The execution path of a result, whatever its arguments; none for a panic or an error.\<close>

datatype execution_path = SyncLog | Annotation | LogActions | TimeSeries

primrec path_of :: "'pc dispatch \<Rightarrow> execution_path" where
  "path_of (executeSyncLogQuery r) = SyncLog"
| "path_of (executeAnnotationQuery p m q) = Annotation"
| "path_of (executeLogActions r) = LogActions"
| "path_of (executeTimeSeriesQuery r) = TimeSeries"

primrec routed :: "'pc QueryData_result \<Rightarrow> execution_path option" where
  "routed Panic_index_out_of_range = None"
| "routed (Return_error e) = None"
| "routed (Return_of d) = Some (path_of d)"

subsection \<open>CheckHealth\<close>

datatype HealthStatus = HealthStatusOk | HealthStatusError

record CheckHealthResult =
  Status :: HealthStatus
  Message :: string

text \<open>
  The two provider calls are methods of the clients: \<open>ListMetricsWithPageLimit\<close> and
  \<open>DescribeLogGroups\<close> give the error of the call, or \<open>nil\<close>; the listings themselves
  are dropped by the source.
\<close>

definition checkHealthMetrics ::
  "('pc \<Rightarrow> go_error + 'cfg DataSource)
     \<Rightarrow> ('cfg MetricsClient \<Rightarrow> ListMetricsInput \<Rightarrow> go_error option) \<Rightarrow> 'pc
     \<Rightarrow> go_error option \<times> ('pc, 'cfg) call list" where
  "checkHealthMetrics im ListMetricsWithPageLimit pluginCtx =
     (let params = \<lparr>Namespace = ''AWS/Billing'', MetricName = ''EstimatedCharges''\<rparr>
      in case getInstance im pluginCtx of
           (Inl err, t0) \<Rightarrow> (Some err, t0)
         | (Inr instance, t0) \<Rightarrow>
             (case newAWSConfig instance defaultRegion of
                (Inl err, t1) \<Rightarrow> (Some err, t0 @ t1)
              | (Inr cfg, t1) \<Rightarrow>
                  let metricClient =
                        NewMetricsClient (NewCWClient cfg)
                          (ListMetricsPageLimit (GrafanaSettings (Settings instance)))
                  in (ListMetricsWithPageLimit metricClient params,
                      t0 @ t1 @ [Call_ListMetricsWithPageLimit metricClient params])))"

definition checkHealthLogs ::
  "('pc \<Rightarrow> go_error + 'cfg DataSource)
     \<Rightarrow> ('cfg LogsAPI \<Rightarrow> DescribeLogGroupsInput \<Rightarrow> go_error option) \<Rightarrow> 'pc
     \<Rightarrow> go_error option \<times> ('pc, 'cfg) call list" where
  "checkHealthLogs im DescribeLogGroups pluginCtx =
     (case getAWSConfig im pluginCtx defaultRegion of
        (Inl err, t0) \<Rightarrow> (Some err, t0)
      | (Inr cfg, t0) \<Rightarrow>
          let logsClient = NewLogsAPI cfg
          in (DescribeLogGroups logsClient \<lparr>Limit = 1\<rparr>,
              t0 @ [Call_DescribeLogGroups logsClient \<lparr>Limit = 1\<rparr>]))"

text \<open>
  \<open>CheckHealth\<close>. Its Go error result is always \<open>nil\<close>; the model returns the health
  result and the calls made.
\<close>

definition CheckHealth ::
  "('pc \<Rightarrow> go_error + 'cfg DataSource)
     \<Rightarrow> ('cfg MetricsClient \<Rightarrow> ListMetricsInput \<Rightarrow> go_error option)
     \<Rightarrow> ('cfg LogsAPI \<Rightarrow> DescribeLogGroupsInput \<Rightarrow> go_error option) \<Rightarrow> 'pc
     \<Rightarrow> CheckHealthResult \<times> ('pc, 'cfg) call list" where
  "CheckHealth im ListMetricsWithPageLimit DescribeLogGroups pluginCtx =
     (let status = HealthStatusOk;
          metricsTest = ''Successfully queried the CloudWatch metrics API.'';
          logsTest = ''Successfully queried the CloudWatch logs API.''
      in case checkHealthMetrics im ListMetricsWithPageLimit pluginCtx of
           (err1, t1) \<Rightarrow>
             let status = (if err1 \<noteq> None then HealthStatusError else status);
                 metricsTest =
                   (case err1 of
                      Some e \<Rightarrow> ''CloudWatch metrics query failed: '' @ Error e
                    | None \<Rightarrow> metricsTest)
             in case checkHealthLogs im DescribeLogGroups pluginCtx of
                  (err2, t2) \<Rightarrow>
                    let status = (if err2 \<noteq> None then HealthStatusError else status);
                        logsTest =
                          (case err2 of
                             Some e \<Rightarrow> ''CloudWatch logs query failed: '' @ Error e
                           | None \<Rightarrow> logsTest)
                    in (\<lparr>Status = status,
                         Message = ''1. '' @ metricsTest @ [newline] @ ''2. '' @ logsTest\<rparr>,
                        t1 @ t2))"

text \<open>The number of lines of a text: one more than its line feeds.\<close>

definition line_count :: "string \<Rightarrow> nat" where
  "line_count s = Suc (length (filter (\<lambda>c. c = newline) s))"

section \<open>The resource router and its handlers\<close>

definition StatusOK :: nat where
  "StatusOK = 200"

definition StatusBadRequest :: nat where
  "StatusBadRequest = 400"

definition StatusForbidden :: nat where
  "StatusForbidden = 403"

definition StatusInternalServerError :: nat where
  "StatusInternalServerError = 500"

text \<open>\<open>url.Values\<close> and its \<open>Get\<close>: the first value of the key, or the empty string.\<close>

type_synonym url_Values = "string \<rightharpoonup> string list"

definition Values_Get :: "url_Values \<Rightarrow> string \<Rightarrow> string" where
  "Values_Get v key = (case v key of None \<Rightarrow> [] | Some [] \<Rightarrow> [] | Some (x # _) \<Rightarrow> x)"

subsection \<open>The simple adapter\<close>

text \<open>
  What the adapter reads of an \<open>http.Request\<close>: the outcome of \<open>ParseForm\<close> and the
  values of \<open>URL.Query\<close>.
\<close>

record http_Request =
  ParseForm :: "go_error option"
  URL_Query :: url_Values

text \<open>
  What the adapter does, in order: the call of the wrapped handler, the writes to the
  response writer and the errors it logs. \<open>rw_Write\<close> gives the error of writing a body,
  or \<open>nil\<close>.
\<close>

datatype effect =
    Call_handleFunc url_Values
  | WriteHeader nat
  | Write string
  | Logger_Error string go_error

definition writeResponse :: "(string \<Rightarrow> go_error option) \<Rightarrow> nat \<Rightarrow> string \<Rightarrow> effect list" where
  "writeResponse rw_Write code msg =
     [WriteHeader code, Write msg] @
     (case rw_Write msg of
        Some err \<Rightarrow> [Logger_Error ''Unable to write HTTP response'' err]
      | None \<Rightarrow> [])"

definition handleResourceReq ::
  "(url_Values \<Rightarrow> go_error + 'a list) \<Rightarrow> ('a list \<Rightarrow> go_error + string)
     \<Rightarrow> (string \<Rightarrow> go_error option) \<Rightarrow> http_Request \<Rightarrow> effect list" where
  "handleResourceReq handleFunc json_Marshal rw_Write req =
     (case ParseForm req of
        Some err \<Rightarrow>
          writeResponse rw_Write StatusBadRequest (''unexpected error '' @ Error err)
      | None \<Rightarrow>
          Call_handleFunc (URL_Query req) #
          (case handleFunc (URL_Query req) of
             Inl err \<Rightarrow>
               writeResponse rw_Write StatusBadRequest (''unexpected error '' @ Error err)
           | Inr data \<Rightarrow>
               (case json_Marshal data of
                  Inl err \<Rightarrow>
                    writeResponse rw_Write StatusBadRequest
                      (''unexpected error '' @ Error err)
                | Inr body \<Rightarrow>
                    [WriteHeader StatusOK, Write body] @
                    (case rw_Write body of
                       Some err \<Rightarrow> [Logger_Error ''Unable to write HTTP response'' err]
                     | None \<Rightarrow> []))))"

subsection \<open>The route handlers\<close>

text \<open>
  Modelled from the spec: \<open>models.HttpError\<close> and its constructor \<open>models.NewHttpError\<close>
  are declared in other packages. Section 3 of the spec makes an HTTP error carry a
  human message, an HTTP status code and a wrapped cause: the three arguments of the
  constructor, in the order of its calls.
\<close>

datatype HttpError = NewHttpError (message: string) (StatusCode: nat) (cause: go_error)

text \<open>
  Modelled from the spec: the middleware adapter \<open>routes.ResourceRequestMiddleware\<close> is
  declared in other packages. By section 4.3 it answers a payload with status 200
  and an HTTP error with that error's declared status code.
\<close>

definition response_status :: "HttpError + string \<Rightarrow> nat" where
  "response_status r = (case r of Inl e \<Rightarrow> StatusCode e | Inr payload \<Rightarrow> StatusOK)"

text \<open>
  Modelled from the spec: \<open>resources.DimensionValuesRequest\<close> is declared in other
  packages. By section 4.4 it holds the region, an optional account, the namespace,
  the metric, the dimension and the dimension filters; the handler reads the region.
\<close>

record DimensionValuesRequest =
  dv_Region :: string
  dv_AccountId :: "string option"
  dv_Namespace :: string
  dv_MetricName :: string
  dv_DimensionKey :: string
  dv_DimensionFilter :: "(string \<times> string) list"

text \<open>
  The two service interfaces, each with the one method its handler calls: the method's
  result for \<open>models.AccountsProvider\<close>, the method itself for
  \<open>models.ListMetricsProvider\<close>.
\<close>

datatype 'acc AccountsProvider =
  AccountsProvider (GetAccountsForCurrentUserOrRole: "go_error + 'acc list")

datatype 'v ListMetricsProvider =
  ListMetricsProvider
    (GetDimensionValuesByDimensionFilter: "DimensionValuesRequest \<Rightarrow> go_error + 'v list")

text \<open>
  The calls a handler makes, in the order made: to the request context factory, to the
  service factory of the metrics handlers, and to the provider behind a service.
\<close>

datatype route_call =
    Call_reqCtxFactory string
  | Call_newListMetricsService string
  | Call_GetAccountsForCurrentUserOrRole
  | Call_GetDimensionValuesByDimensionFilter DimensionValuesRequest

text \<open>
  \<open>newAccountsService\<close>, the value the package variable is initialised with.
  \<open>NewAccountsService\<close> is the constructor of the \<open>services\<close> package.
\<close>

definition newAccountsService ::
  "('cfg OAMAPI option \<Rightarrow> 'acc AccountsProvider)
     \<Rightarrow> (string \<Rightarrow> 'cfg RequestContext \<times> go_error option) \<Rightarrow> string
     \<Rightarrow> (go_error + 'acc AccountsProvider) \<times> route_call list" where
  "newAccountsService NewAccountsService reqCtxFactory region =
     (case reqCtxFactory region of
        (oamClient, Some err) \<Rightarrow> (Inl err, [Call_reqCtxFactory region])
      | (oamClient, None) \<Rightarrow>
          (Inr (NewAccountsService (OAMAPIProvider oamClient)), [Call_reqCtxFactory region]))"

definition AccountsHandler ::
  "('cfg OAMAPI option \<Rightarrow> 'acc AccountsProvider) \<Rightarrow> ('acc list \<Rightarrow> go_error + string)
     \<Rightarrow> (string \<Rightarrow> 'cfg RequestContext \<times> go_error option) \<Rightarrow> url_Values
     \<Rightarrow> (HttpError + string) \<times> route_call list" where
  "AccountsHandler NewAccountsService json_Marshal reqCtxFactory parameters =
     (let region = Values_Get parameters ''region''
      in if region = []
         then (Inl (NewHttpError ''error in AccountsHandler'' StatusBadRequest
                      (Errorf ''region is required'')), [])
         else
           (case newAccountsService NewAccountsService reqCtxFactory region of
              (Inl err, t0) \<Rightarrow>
                (Inl (NewHttpError ''error in AccountsHandler'' StatusInternalServerError err),
                 t0)
            | (Inr service, t0) \<Rightarrow>
                (case GetAccountsForCurrentUserOrRole service of
                   Inl err \<Rightarrow>
                     let msg = ''error getting accounts for current user or role''
                     in if errors_Is err ErrAccessDeniedException
                        then (Inl (NewHttpError msg StatusForbidden err),
                              t0 @ [Call_GetAccountsForCurrentUserOrRole])
                        else (Inl (NewHttpError msg StatusInternalServerError err),
                              t0 @ [Call_GetAccountsForCurrentUserOrRole])
                 | Inr accounts \<Rightarrow>
                     (case json_Marshal accounts of
                        Inl err \<Rightarrow>
                          (Inl (NewHttpError ''error in AccountsHandler''
                                  StatusInternalServerError err),
                           t0 @ [Call_GetAccountsForCurrentUserOrRole])
                      | Inr accountsResponse \<Rightarrow>
                          (Inr accountsResponse,
                           t0 @ [Call_GetAccountsForCurrentUserOrRole])))))"

text \<open>
  \<open>DimensionValuesHandler\<close>, in the form that takes the factory alone. The parser
  \<open>resources.GetDimensionValuesRequest\<close> and the service factory
  \<open>newListMetricsService\<close> are declared in other packages and are parameters.
\<close>

definition DimensionValuesHandler ::
  "(url_Values \<Rightarrow> go_error + DimensionValuesRequest)
     \<Rightarrow> ((string \<Rightarrow> 'cfg RequestContext \<times> go_error option) \<Rightarrow> string
           \<Rightarrow> go_error + 'v ListMetricsProvider)
     \<Rightarrow> ('v list \<Rightarrow> go_error + string)
     \<Rightarrow> (string \<Rightarrow> 'cfg RequestContext \<times> go_error option) \<Rightarrow> url_Values
     \<Rightarrow> (HttpError + string) \<times> route_call list" where
  "DimensionValuesHandler GetDimensionValuesRequest newListMetricsService json_Marshal
       reqCtxFactory parameters =
     (case GetDimensionValuesRequest parameters of
        Inl err \<Rightarrow>
          (Inl (NewHttpError ''error in DimensionValuesHandler'' StatusBadRequest err), [])
      | Inr dimensionValuesRequest \<Rightarrow>
          let t0 = [Call_newListMetricsService (dv_Region dimensionValuesRequest)]
          in (case newListMetricsService reqCtxFactory (dv_Region dimensionValuesRequest) of
                Inl err \<Rightarrow>
                  (Inl (NewHttpError ''error in DimensionValuesHandler''
                          StatusInternalServerError err), t0)
              | Inr service \<Rightarrow>
                  let t1 = t0 @ [Call_GetDimensionValuesByDimensionFilter
                                    dimensionValuesRequest]
                  in (case GetDimensionValuesByDimensionFilter service
                             dimensionValuesRequest of
                        Inl err \<Rightarrow>
                          (Inl (NewHttpError ''error in DimensionValuesHandler''
                                  StatusInternalServerError err), t1)
                      | Inr response \<Rightarrow>
                          (case json_Marshal response of
                             Inl err \<Rightarrow>
                               (Inl (NewHttpError ''error in DimensionValuesHandler''
                                       StatusInternalServerError err), t1)
                           | Inr dimensionValuesResponse \<Rightarrow>
                               (Inr dimensionValuesResponse, t1)))))"

record ExternalIdResponse =
  ExternalId :: string

text \<open>
  \<open>json.Marshal\<close> at the type \<open>ExternalIdResponse\<close>. The encoder belongs to Go's
  standard library. On a struct whose only field is a string it writes a JSON object of one
  member, under the name of the field's tag, and has no error to return: \<open>json_string\<close>
  is its encoder of string literals, which escapes what JSON cannot hold and never fails.
\<close>

definition json_Marshal_ExternalIdResponse ::
  "(string \<Rightarrow> string) \<Rightarrow> ExternalIdResponse \<Rightarrow> go_error + string" where
  "json_Marshal_ExternalIdResponse json_string r =
     Inr (''{'' @ [CHR 0x22] @ ''externalId'' @ [CHR 0x22] @ '':'' @
          json_string (ExternalId r) @ ''}'')"

text \<open>\<open>ExternalIdHandler\<close>, in the form that takes the factory alone.\<close>

definition ExternalIdHandler ::
  "(ExternalIdResponse \<Rightarrow> go_error + string)
     \<Rightarrow> (string \<Rightarrow> 'cfg RequestContext \<times> go_error option) \<Rightarrow> url_Values
     \<Rightarrow> (HttpError + string) \<times> route_call list" where
  "ExternalIdHandler json_Marshal reqCtxBeforeAuth parameters =
     (case reqCtxBeforeAuth [] of
        (reqCtx, Some err) \<Rightarrow>
          (Inl (NewHttpError ''error in ExternalIdHandler'' StatusInternalServerError err),
           [Call_reqCtxFactory []])
      | (reqCtx, None) \<Rightarrow>
          let response = \<lparr>ExternalId = ExternalID (GrafanaSettings (rc_Settings reqCtx))\<rparr>
          in (case json_Marshal response of
                Inl err \<Rightarrow>
                  (Inl (NewHttpError ''error in ExternalIdHandler''
                          StatusInternalServerError err),
                   [Call_reqCtxFactory []])
              | Inr jsonResponse \<Rightarrow> (Inr jsonResponse, [Call_reqCtxFactory []])))"

section \<open>Example inputs\<close>

text \<open>
  An instance whose home region is \<open>us-east-1\<close>, a configuration provider that knows
  every region but \<open>moon-1\<close> and names the configuration after its region, and an
  instance manager with three instances: the first as above, the second with the home
  region \<open>moon-1\<close>, the third with no home region.
\<close>

definition settings_example :: CloudWatchSettings where
  "settings_example =
     \<lparr>Region = ''us-east-1'', Profile = ''dev'', AuthType = 2, AssumeRoleARN = [],
      Endpoint = [], AccessKey = ''AKIA'', SecretKey = ''s3cr3t'',
      SecureSocksProxyEnabled = False,
      GrafanaSettings =
        \<lparr>ExternalID = ''ext-42'', SecureSocksDSProxyEnabled = False,
         ListMetricsPageLimit = 500\<rparr>\<rparr>"

definition provider_example :: "awsauth_Settings \<Rightarrow> go_error + string" where
  "provider_example a =
     (if auth_Region a = ''moon-1'' then Inl (Errorf ''unknown region'')
      else Inr (''config for '' @ auth_Region a))"

definition instance_example :: "string DataSource" where
  "instance_example =
     \<lparr>Settings = settings_example, ProxyOpts = None,
      AWSConfigProvider = provider_example,
      logger = NewLoggerWith ''logger'' ''grafana-cloudwatch-datasource''\<rparr>"

definition instance_moon :: "string DataSource" where
  "instance_moon = instance_example\<lparr>Settings := settings_example\<lparr>Region := ''moon-1''\<rparr>\<rparr>"

definition instance_unset :: "string DataSource" where
  "instance_unset = instance_example\<lparr>Settings := settings_example\<lparr>Region := []\<rparr>\<rparr>"

definition im_example :: "string \<Rightarrow> go_error + string DataSource" where
  "im_example pluginCtx =
     (if pluginCtx = ''uid-1'' then Inr instance_example
      else if pluginCtx = ''uid-2'' then Inr instance_moon
      else if pluginCtx = ''uid-3'' then Inr instance_unset
      else Inl (Errorf ''no such instance''))"

definition ds_example :: "string DataSource" where
  "ds_example =
     \<lparr>Settings = CloudWatchSettings_zero, ProxyOpts = None,
      AWSConfigProvider = provider_example,
      logger = NewLoggerWith ''logger'' ''grafana-cloudwatch-datasource''\<rparr>"

text \<open>The request context factory a handler is given for the first instance.\<close>

definition factory_example :: "string \<Rightarrow> string RequestContext \<times> go_error option" where
  "factory_example region = fst (getRequestContext im_example ds_example ''uid-1'' region)"

definition factory_before_auth :: "string \<Rightarrow> string RequestContext \<times> go_error option" where
  "factory_before_auth region =
     fst (getRequestContextOnlySettings im_example ds_example ''uid-1'' region)"

text \<open>JSON texts: a string literal, a list separated by commas, an array of strings.\<close>

definition quoted :: "string \<Rightarrow> string" where
  "quoted s = [CHR 0x22] @ s @ [CHR 0x22]"

fun commas :: "string list \<Rightarrow> string" where
  "commas [] = []"
| "commas [x] = x"
| "commas (x # y # ys) = x @ '','' @ commas (y # ys)"

definition marshal_strings :: "string list \<Rightarrow> go_error + string" where
  "marshal_strings xs = Inr (''['' @ commas (map quoted xs) @ '']'')"

definition marshal_accounts :: "(string \<times> string) list \<Rightarrow> go_error + string" where
  "marshal_accounts xs =
     Inr (''['' @
          commas (map (\<lambda>(i, l). ''{'' @ quoted ''id'' @ '':'' @ quoted i @ '','' @
                                  quoted ''label'' @ '':'' @ quoted l @ ''}'') xs) @
          '']'')"

definition marshal_failing :: "'a \<Rightarrow> go_error + string" where
  "marshal_failing x = Inl (Errorf ''json: unsupported value'')"

text \<open>
  An accounts service: access is denied behind the client of \<open>eu-west-1\<close>, requests are
  throttled behind that of \<open>ap-south-1\<close>, and two accounts are listed behind any other.
\<close>

definition accounts_service_example ::
  "string OAMAPI option \<Rightarrow> (string \<times> string) AccountsProvider" where
  "accounts_service_example oam =
     AccountsProvider
       (case oam of
          None \<Rightarrow> Inl (Errorf ''no client'')
        | Some (NewOAMAPI cfg) \<Rightarrow>
            if cfg = ''config for eu-west-1''
            then Inl (Wrapf ''access denied. please check your IAM policy: oam:ListSinks''
                        ErrAccessDeniedException)
            else if cfg = ''config for ap-south-1''
            then Inl (Errorf ''Throttling: rate exceeded'')
            else Inr [(''111'', ''prod''), (''222'', ''dev'')])"

definition accounts_json :: string where
  "accounts_json =
     ''[{'' @ quoted ''id'' @ '':'' @ quoted ''111'' @ '','' @ quoted ''label'' @ '':'' @
       quoted ''prod'' @ ''},{'' @ quoted ''id'' @ '':'' @ quoted ''222'' @ '','' @
       quoted ''label'' @ '':'' @ quoted ''dev'' @ ''}]''"

definition region_parameter :: "string \<Rightarrow> url_Values" where
  "region_parameter r = [''region'' \<mapsto> [r]]"

text \<open>
  A filter parser that rejects the filter text \<open>{\<close>, and a metrics service that lists the
  values of the dimension \<open>AvailabilityZone\<close> and fails on any other dimension.
\<close>

definition parse_example :: "url_Values \<Rightarrow> go_error + DimensionValuesRequest" where
  "parse_example v =
     (if Values_Get v ''dimensionFilters'' = ''{''
      then Inl (Errorf ''error unmarshaling dimensionFilters: unexpected end of JSON input'')
      else Inr \<lparr>dv_Region = Values_Get v ''region'', dv_AccountId = None,
                dv_Namespace = Values_Get v ''namespace'',
                dv_MetricName = Values_Get v ''metricName'',
                dv_DimensionKey = Values_Get v ''dimensionKey'',
                dv_DimensionFilter = []\<rparr>)"

definition values_of_dimension :: "DimensionValuesRequest \<Rightarrow> go_error + string list" where
  "values_of_dimension rq =
     (if dv_DimensionKey rq = ''AvailabilityZone'' then Inr [''us-east-1a'', ''us-east-1b'']
      else Inl (Errorf ''ValidationError: unknown dimension''))"

definition metrics_service_example ::
  "(string \<Rightarrow> string RequestContext \<times> go_error option) \<Rightarrow> string
     \<Rightarrow> go_error + string ListMetricsProvider" where
  "metrics_service_example factory region =
     (case factory region of
        (rc, Some err) \<Rightarrow> Inl err
      | (rc, None) \<Rightarrow> Inr (ListMetricsProvider values_of_dimension))"

definition dimension_parameters :: "string \<Rightarrow> string \<Rightarrow> string \<Rightarrow> url_Values" where
  "dimension_parameters r k f =
     [''region'' \<mapsto> [r], ''dimensionKey'' \<mapsto> [k], ''dimensionFilters'' \<mapsto> [f]]"

text \<open>A handler of the simple adapter, and response writers that succeed and fail.\<close>

definition handle_example :: "url_Values \<Rightarrow> go_error + string list" where
  "handle_example v =
     (if Values_Get v ''region'' = [] then Inl (Errorf ''region is missing'')
      else Inr [''vol-1'', ''vol-2''])"

definition rw_ok :: "string \<Rightarrow> go_error option" where
  "rw_ok body = None"

definition rw_closed :: "string \<Rightarrow> go_error option" where
  "rw_closed body = Some (Errorf ''write: broken pipe'')"

text \<open>
  Provider calls of the health check: both succeed on a client of \<open>us-east-1\<close> and are
  denied on any other; a log group listing whose error text has two lines.
\<close>

definition list_metrics_example :: "string MetricsClient \<Rightarrow> ListMetricsInput \<Rightarrow> go_error option" where
  "list_metrics_example client params =
     (case client of
        NewMetricsClient (NewCWClient cfg) limit \<Rightarrow>
          if cfg = ''config for us-east-1'' then None else Some (Errorf ''AccessDenied''))"

definition describe_log_groups_example ::
  "string LogsAPI \<Rightarrow> DescribeLogGroupsInput \<Rightarrow> go_error option" where
  "describe_log_groups_example client params =
     (case client of
        NewLogsAPI cfg \<Rightarrow>
          if cfg = ''config for us-east-1'' then None else Some (Errorf ''AccessDenied''))"

definition describe_log_groups_joined ::
  "string LogsAPI \<Rightarrow> DescribeLogGroupsInput \<Rightarrow> go_error option" where
  "describe_log_groups_joined client params =
     Some (Errorf (''AccessDeniedException'' @ [newline] @ ''ThrottlingException''))"

text \<open>
  A decoder of query models that knows four texts, a header lookup, and requests with one
  and with two queries.
\<close>

definition unmarshal_example :: "string \<Rightarrow> go_error + DataQueryJson" where
  "unmarshal_example j =
     (if j = ''logs'' then Inr \<lparr>QueryMode = ''Logs'', Type = []\<rparr>
      else if j = ''logs, time series''
        then Inr \<lparr>QueryMode = ''Logs'', Type = ''timeSeriesQuery''\<rparr>
      else if j = ''metrics, annotation''
        then Inr \<lparr>QueryMode = ''Metrics'', Type = ''annotationQuery''\<rparr>
      else if j = ''logs, action''
        then Inr \<lparr>QueryMode = ''Logs'', Type = ''logAction''\<rparr>
      else if j = ''metrics''
        then Inr \<lparr>QueryMode = ''Metrics'', Type = []\<rparr>
      else Inl (Errorf ''unexpected end of JSON input''))"

definition header_example :: "(string \<rightharpoonup> string) \<Rightarrow> string \<Rightarrow> string" where
  "header_example headers key = (case headers (''http_'' @ key) of None \<Rightarrow> [] | Some v \<Rightarrow> v)"

definition request_example :: "(string \<rightharpoonup> string) \<Rightarrow> string list \<Rightarrow> string QueryDataRequest" where
  "request_example hs js =
     \<lparr>PluginContext = ''uid-1'', Headers = hs,
      Queries = map (\<lambda>j. \<lparr>RefID = ''A'', JSON = j\<rparr>) js\<rparr>"

text \<open>The settings the second instance passes to the provider for its home region.\<close>

definition moon_settings :: awsauth_Settings where
  "moon_settings = \<lparr>CredentialsProfile = ''dev'', LegacyAuthType = 2,
         auth_AssumeRoleARN = [], auth_ExternalID = ''ext-42'', auth_Endpoint = [],
         auth_Region = ''moon-1'', auth_AccessKey = ''AKIA'', auth_SecretKey = ''s3cr3t'',
         ProxyOptions = None\<rparr>"

text \<open>The request that \<open>parse_example\<close> reads from a region and a dimension.\<close>

definition zone_request :: "string \<Rightarrow> string \<Rightarrow> DimensionValuesRequest" where
  "zone_request r k =
     \<lparr>dv_Region = r, dv_AccountId = None, dv_Namespace = [], dv_MetricName = [],
      dv_DimensionKey = k, dv_DimensionFilter = []\<rparr>"

text \<open>The settings the first instance passes to the provider for its home region.\<close>

definition home_settings :: awsauth_Settings where
  "home_settings = moon_settings\<lparr>auth_Region := ''us-east-1''\<rparr>"

section \<open>Properties\<close>

lemmas example_defs =
  settings_example_def provider_example_def instance_example_def instance_moon_def
  instance_unset_def im_example_def ds_example_def defaultRegion_def

lemma instance_example_default:
  "newAWSConfig instance_example defaultRegion
     = (Inr ''config for us-east-1'', [Call_GetConfig home_settings])"
  by (simp add: newAWSConfig_def Let_def example_defs home_settings_def moon_settings_def)

lemma instance_moon_default:
  "newAWSConfig instance_moon defaultRegion
     = (Inl (Errorf ''unknown region''), [Call_GetConfig moon_settings])"
  by (simp add: newAWSConfig_def Let_def example_defs moon_settings_def)

lemma im_example_simps:
  "im_example ''uid-1'' = Inr instance_example"
  "im_example ''uid-2'' = Inr instance_moon"
  by (simp_all add: im_example_def)

lemma limit_example: "ListMetricsPageLimit (GrafanaSettings (Settings instance_example)) = 500"
  by (simp add: example_defs)

lemma newAWSConfig_calls:
  "Call_GetConfig a \<in> set (snd (newAWSConfig ds region)) \<Longrightarrow>
   auth_Region a = (if region = defaultRegion then Region (Settings ds) else region)"
  by (auto simp: newAWSConfig_def Let_def split: if_splits)

lemma newAWSConfig_at_most_one_call: "length (snd (newAWSConfig ds region)) \<le> 1"
  by (simp add: newAWSConfig_def Let_def)

lemma getInstance_simp [simp]: "getInstance im pc = (im pc, [Call_im_Get pc])"
  by (simp add: getInstance_def)

lemma getRequestContext_no_instance:
  "im pc = Inl e \<Longrightarrow>
   getRequestContext im ds pc region = ((RequestContext_zero, Some e), [Call_im_Get pc])"
  by (simp add: getRequestContext_def)

lemma getRequestContext_default_fails:
  "im pc = Inr inst \<Longrightarrow> newAWSConfig inst defaultRegion = (Inl e, t) \<Longrightarrow>
   getRequestContext im ds pc region = ((RequestContext_zero, Some e), Call_im_Get pc # t)"
  by (simp add: getRequestContext_def Let_def)

lemma getRequestContext_target_fails:
  "im pc = Inr inst \<Longrightarrow> newAWSConfig inst defaultRegion = (Inr c, t1) \<Longrightarrow>
   newAWSConfig inst (if region = defaultRegion then Region (Settings inst) else region)
     = (Inl e, t2) \<Longrightarrow>
   getRequestContext im ds pc region
     = ((RequestContext_zero, Some e), Call_im_Get pc # t1 @ t2)"
  by (simp add: getRequestContext_def Let_def)

lemma getRequestContext_ok:
  "im pc = Inr inst \<Longrightarrow> newAWSConfig inst defaultRegion = (Inr c1, t1) \<Longrightarrow>
   newAWSConfig inst (if region = defaultRegion then Region (Settings inst) else region)
     = (Inr c2, t2) \<Longrightarrow>
   getRequestContext im ds pc region
     = ((\<lparr>OAMAPIProvider = Some (NewOAMAPI c2),
          MetricsClientProvider =
            Some (NewMetricsClient (NewCWClient c2)
              (ListMetricsPageLimit (GrafanaSettings (Settings inst)))),
          LogsAPIProvider = Some (NewLogsAPI c2),
          EC2APIProvider = Some (NewEC2API c1),
          rc_Settings = Settings inst,
          rc_Logger = Some (FromContext (logger ds))\<rparr>, None),
        Call_im_Get pc # t1 @ t2)"
  by (simp add: getRequestContext_def Let_def)

lemma getRequestContext_cases:
  "(\<exists>e t. getRequestContext im ds pc region = ((RequestContext_zero, Some e), t)) \<or>
   (\<exists>rc t. getRequestContext im ds pc region = ((rc, None), t) \<and>
      OAMAPIProvider rc \<noteq> None \<and> MetricsClientProvider rc \<noteq> None \<and>
      LogsAPIProvider rc \<noteq> None \<and> EC2APIProvider rc \<noteq> None \<and> rc_Logger rc \<noteq> None)"
proof (cases "im pc")
  case (Inl e)
  then show ?thesis by (simp add: getRequestContext_no_instance)
next
  case (Inr inst)
  obtain r1 t1 where d: "(newAWSConfig inst defaultRegion :: (go_error + 'b) \<times> ('a, 'b) call list) = (r1, t1)"
    by (cases "newAWSConfig inst defaultRegion :: (go_error + 'b) \<times> ('a, 'b) call list") 
  obtain r2 t2 where g: "(newAWSConfig inst (if region = defaultRegion then Region (Settings inst) else region) :: (go_error + 'b) \<times> ('a, 'b) call list) = (r2, t2)"
    by (cases "newAWSConfig inst (if region = defaultRegion then Region (Settings inst) else region) :: (go_error + 'b) \<times> ('a, 'b) call list")
  show ?thesis
  proof (cases r1)
    case (Inl e)
    with Inr d show ?thesis by (simp add: getRequestContext_default_fails)
  next
    case c1: (Inr c1)
    show ?thesis
    proof (cases r2)
      case (Inl e)
      with Inr d g c1 show ?thesis by (simp add: getRequestContext_target_fails)
    next
      case c2: (Inr c2)
      from Inr d g c1 c2 show ?thesis
        using getRequestContext_ok [of im pc inst c1 t1 region c2 t2 ds] by simp
    qed
  qed
qed


lemma getRequestContextOnlySettings_eq:
  "getRequestContextOnlySettings im ds pc region =
     (case im pc of
        Inl e \<Rightarrow> ((RequestContext_zero, Some e), [Call_im_Get pc])
      | Inr inst \<Rightarrow>
          ((\<lparr>OAMAPIProvider = None, MetricsClientProvider = None, LogsAPIProvider = None,
             EC2APIProvider = None, rc_Settings = Settings inst,
             rc_Logger = Some (FromContext (logger ds))\<rparr>, None), [Call_im_Get pc]))"
  by (simp add: getRequestContextOnlySettings_def split: sum.splits)

subsection \<open>Resolution of the default region\<close>

text \<open>
  Claim C6. A configuration resolution whose requested region is the sentinel
  \<open>default\<close> resolves the instance's home region \<open>Settings.Region\<close>, not the literal
  sentinel: when the home region is set, \<open>newAWSConfig\<close> on \<open>default\<close> is the same call
  of \<open>GetConfig\<close>, with the same result, as \<open>newAWSConfig\<close> on the home region, and the
  settings it passes carry the home region; when the home region is empty it resolves
  nothing and returns \<open>ErrMissingRegion\<close>. In \<open>getRequestContext\<close> on the region
  \<open>default\<close> every call of \<open>GetConfig\<close> carries the home region of the instance.
\<close>

theorem newAWSConfig_default_is_home_region:
  "(Region (Settings ds) \<noteq> [] \<longrightarrow>
      newAWSConfig ds defaultRegion = newAWSConfig ds (Region (Settings ds)) \<and>
      (\<exists>a. auth_Region a = Region (Settings ds) \<and>
           newAWSConfig ds defaultRegion = (AWSConfigProvider ds a, [Call_GetConfig a]))) \<and>
   (Region (Settings ds) = [] \<longrightarrow> newAWSConfig ds defaultRegion = (Inl ErrMissingRegion, [])) \<and>
   ((im :: 'pc \<Rightarrow> go_error + 'cfg DataSource) pc = Inr inst \<longrightarrow>
      (\<forall>a. Call_GetConfig a \<in> set (snd (getRequestContext im ds' pc defaultRegion)) \<longrightarrow>
           auth_Region a = Region (Settings inst)))"
proof (intro conjI impI allI)
  assume "Region (Settings ds) \<noteq> []"
  then show "newAWSConfig ds defaultRegion = newAWSConfig ds (Region (Settings ds))"
    by (simp add: newAWSConfig_def Let_def)
next
  assume "Region (Settings ds) \<noteq> []"
  then show "\<exists>a. auth_Region a = Region (Settings ds) \<and>
           newAWSConfig ds defaultRegion = (AWSConfigProvider ds a, [Call_GetConfig a])"
    by (simp add: newAWSConfig_def Let_def)
next
  assume "Region (Settings ds) = []"
  then show "newAWSConfig ds defaultRegion = (Inl ErrMissingRegion, [])"
    by (simp add: newAWSConfig_def)
next
  fix a
  assume i: "im pc = Inr inst"
    and a: "Call_GetConfig a \<in> set (snd (getRequestContext im ds' pc defaultRegion))"
  let ?d = "newAWSConfig inst defaultRegion :: (go_error + 'cfg) \<times> ('pc, 'cfg) call list"
  let ?g = "newAWSConfig inst (Region (Settings inst)) :: (go_error + 'cfg) \<times> ('pc, 'cfg) call list"
  have t: "set (snd (getRequestContext im ds' pc defaultRegion))
             \<subseteq> {Call_im_Get pc} \<union> set (snd ?d) \<union> set (snd ?g)"
    using i by (auto simp: getRequestContext_def Let_def split: prod.splits sum.splits)
  have d: "\<forall>b. Call_GetConfig b \<in> set (snd ?d) \<longrightarrow> auth_Region b = Region (Settings inst)"
    by (auto dest: newAWSConfig_calls)
  have g: "\<forall>b. Call_GetConfig b \<in> set (snd ?g) \<longrightarrow> auth_Region b = Region (Settings inst)"
    by (auto dest: newAWSConfig_calls)
  from a t d g show "auth_Region a = Region (Settings inst)" by auto
qed

text \<open>
  The first instance resolves \<open>default\<close> to the configuration of \<open>us-east-1\<close>; the
  third, with no home region, gets \<open>ErrMissingRegion\<close> and no call of the provider.
\<close>

theorem newAWSConfig_default_is_home_region_witness:
  "Region (Settings instance_example) = ''us-east-1'' \<and>
   newAWSConfig instance_example defaultRegion = newAWSConfig instance_example ''us-east-1'' \<and>
   newAWSConfig instance_example defaultRegion
     = (Inr ''config for us-east-1'', [Call_GetConfig home_settings]) \<and>
   Region (Settings instance_unset) = [] \<and>
   newAWSConfig instance_unset defaultRegion = (Inl ErrMissingRegion, []) \<and>
   im_example ''uid-1'' = Inr instance_example \<and>
   snd (getRequestContext im_example ds_example ''uid-1'' defaultRegion)
     = [Call_im_Get ''uid-1'', Call_GetConfig home_settings, Call_GetConfig home_settings] \<and>
   auth_Region home_settings = ''us-east-1''"
proof -
  note T1 = newAWSConfig_default_is_home_region
      [where ds = instance_example and im = im_example and pc = "''uid-1''"
         and inst = instance_example and ds' = ds_example]
  note T2 = newAWSConfig_default_is_home_region
      [where ds = instance_unset and im = im_example and pc = "''uid-1''"
         and inst = instance_example and ds' = ds_example]
  have r: "Region (Settings instance_example) = ''us-east-1''" by (simp add: example_defs)
  have h1: "Region (Settings instance_example) \<noteq> []" by (simp add: r)
  have h2: "Region (Settings instance_unset) = []" by (simp add: example_defs)
  have h3: "im_example ''uid-1'' = Inr instance_example" by (rule im_example_simps)
  from T1 h1 have c1:
    "newAWSConfig instance_example defaultRegion
       = newAWSConfig instance_example (Region (Settings instance_example))"
    by blast
  then have c1': "newAWSConfig instance_example defaultRegion
       = newAWSConfig instance_example ''us-east-1''"
    by (simp only: r)
  from T2 h2 have c2: "newAWSConfig instance_unset defaultRegion = (Inl ErrMissingRegion, [])"
    by blast
  have t: "snd (getRequestContext im_example ds_example ''uid-1'' defaultRegion)
     = [Call_im_Get ''uid-1'', Call_GetConfig home_settings, Call_GetConfig home_settings]"
    by (simp add: getRequestContext_def Let_def h3 r instance_example_default
          instance_example_default [unfolded c1'])
  have i: "Call_GetConfig home_settings
             \<in> set (snd (getRequestContext im_example ds_example ''uid-1'' defaultRegion))"
    by (simp add: t)
  have c3: "auth_Region home_settings = Region (Settings instance_example)"
    using T1 [THEN conjunct2, THEN conjunct2, rule_format, OF h3 i] .
  show ?thesis using r c1' instance_example_default h2 c2 h3 t c3 by simp
qed

subsection \<open>The configurations behind the clients of a full request context\<close>

text \<open>
  Claim C1, as amended. For every requested region, a successful \<open>getRequestContext\<close>
  builds the compute-instance (EC2) client on the configuration resolved for the default
  region, and the account-discovery (OAM), metrics and logs clients on the configuration
  resolved for the requested region (the home region when the request names \<open>default\<close>).
\<close>

theorem getRequestContext_client_configurations:
  assumes "(im :: 'pc \<Rightarrow> go_error + 'cfg DataSource) pc = Inr inst"
    and "fst (newAWSConfig inst defaultRegion :: (go_error + 'cfg) \<times> ('pc, 'cfg) call list)
           = Inr cfgDefault"
    and "fst (newAWSConfig inst (if region = defaultRegion then Region (Settings inst) else region)
             :: (go_error + 'cfg) \<times> ('pc, 'cfg) call list)
           = Inr cfgRegion"
  shows "fst (getRequestContext im ds pc region) =
           (\<lparr>OAMAPIProvider = Some (NewOAMAPI cfgRegion),
             MetricsClientProvider =
               Some (NewMetricsClient (NewCWClient cfgRegion)
                 (ListMetricsPageLimit (GrafanaSettings (Settings inst)))),
             LogsAPIProvider = Some (NewLogsAPI cfgRegion),
             EC2APIProvider = Some (NewEC2API cfgDefault),
             rc_Settings = Settings inst,
             rc_Logger = Some (FromContext (logger ds))\<rparr>, None)"
proof -
  obtain t1 where d: "(newAWSConfig inst defaultRegion
      :: (go_error + 'cfg) \<times> ('pc, 'cfg) call list) = (Inr cfgDefault, t1)"
    using assms(2) by (metis prod.collapse)
  obtain t2 where g: "(newAWSConfig inst
        (if region = defaultRegion then Region (Settings inst) else region)
      :: (go_error + 'cfg) \<times> ('pc, 'cfg) call list) = (Inr cfgRegion, t2)"
    using assms(3) by (metis prod.collapse)
  show ?thesis
    using getRequestContext_ok [where im = im and pc = pc and inst = inst and ds = ds
        and region = region and ?c1.0 = cfgDefault and ?c2.0 = cfgRegion
        and ?t1.0 = t1 and ?t2.0 = t2] assms(1) d g
    by simp
qed

text \<open>The first instance, home region \<open>us-east-1\<close>, asked for \<open>eu-west-1\<close>.\<close>

theorem getRequestContext_client_configurations_witness:
  "im_example ''uid-1'' = Inr instance_example \<and>
   fst (newAWSConfig instance_example defaultRegion) = Inr ''config for us-east-1'' \<and>
   fst (newAWSConfig instance_example ''eu-west-1'') = Inr ''config for eu-west-1'' \<and>
   fst (getRequestContext im_example ds_example ''uid-1'' ''eu-west-1'') =
     (\<lparr>OAMAPIProvider = Some (NewOAMAPI ''config for eu-west-1''),
       MetricsClientProvider = Some (NewMetricsClient (NewCWClient ''config for eu-west-1'') 500),
       LogsAPIProvider = Some (NewLogsAPI ''config for eu-west-1''),
       EC2APIProvider = Some (NewEC2API ''config for us-east-1''),
       rc_Settings = settings_example,
       rc_Logger =
         Some (FromContext (NewLoggerWith ''logger'' ''grafana-cloudwatch-datasource''))\<rparr>,
      None)"
proof -
  have h1: "im_example ''uid-1'' = Inr instance_example" by (simp add: example_defs)
  have h2: "fst (newAWSConfig instance_example defaultRegion
              :: (go_error + string) \<times> (string, string) call list)
              = Inr ''config for us-east-1''"
    by (simp add: newAWSConfig_def Let_def example_defs)
  have h3: "fst (newAWSConfig instance_example ''eu-west-1''
              :: (go_error + string) \<times> (string, string) call list)
              = Inr ''config for eu-west-1''"
    by (simp add: newAWSConfig_def Let_def example_defs)
  have h3': "fst (newAWSConfig instance_example
                (if ''eu-west-1'' = defaultRegion then Region (Settings instance_example)
                 else ''eu-west-1'')
              :: (go_error + string) \<times> (string, string) call list)
              = Inr ''config for eu-west-1''"
    using h3 by (simp add: defaultRegion_def)
  have c: "fst (getRequestContext im_example ds_example ''uid-1'' ''eu-west-1'') =
     (\<lparr>OAMAPIProvider = Some (NewOAMAPI ''config for eu-west-1''),
       MetricsClientProvider = Some (NewMetricsClient (NewCWClient ''config for eu-west-1'')
          (ListMetricsPageLimit (GrafanaSettings (Settings instance_example)))),
       LogsAPIProvider = Some (NewLogsAPI ''config for eu-west-1''),
       EC2APIProvider = Some (NewEC2API ''config for us-east-1''),
       rc_Settings = Settings instance_example,
       rc_Logger = Some (FromContext (logger ds_example))\<rparr>, None)"
    using getRequestContext_client_configurations
      [where im = im_example and pc = "''uid-1''" and inst = instance_example
         and ds = ds_example and region = "''eu-west-1''"
         and cfgDefault = "''config for us-east-1''"
         and cfgRegion = "''config for eu-west-1''"] h1 h2 h3'
    by blast
  have s: "Settings instance_example = settings_example"
    "ListMetricsPageLimit (GrafanaSettings settings_example) = 500"
    "logger ds_example = NewLoggerWith ''logger'' ''grafana-cloudwatch-datasource''"
    by (simp_all add: example_defs)
  have h2': "fst (newAWSConfig instance_example defaultRegion) = Inr ''config for us-east-1''"
    by (simp add: newAWSConfig_def Let_def example_defs)
  have h3'': "fst (newAWSConfig instance_example ''eu-west-1'') = Inr ''config for eu-west-1''"
    by (simp add: newAWSConfig_def Let_def example_defs)
  show ?thesis using h1 h2' h3'' c s by simp
qed

text \<open>
  Claim C1 as stated fails: asked for \<open>eu-west-1\<close>, the first instance gets an OAM client
  on the configuration of \<open>eu-west-1\<close>, which is not the configuration of its default
  region.
\<close>

theorem oam_client_not_on_default_configuration:
  "fst (newAWSConfig instance_example defaultRegion) = Inr ''config for us-east-1'' \<and>
   fst (newAWSConfig instance_example ''eu-west-1'') = Inr ''config for eu-west-1'' \<and>
   snd (fst (getRequestContext im_example ds_example ''uid-1'' ''eu-west-1'')) = None \<and>
   OAMAPIProvider (fst (fst (getRequestContext im_example ds_example ''uid-1'' ''eu-west-1'')))
     = Some (NewOAMAPI ''config for eu-west-1'') \<and>
   OAMAPIProvider (fst (fst (getRequestContext im_example ds_example ''uid-1'' ''eu-west-1'')))
     \<noteq> Some (NewOAMAPI ''config for us-east-1'')"
  by (simp add: getRequestContext_def newAWSConfig_def Let_def example_defs)

subsection \<open>The full request context is all or nothing\<close>

text \<open>
  Claim C5. When the resolution of the default region's configuration fails,
  \<open>getRequestContext\<close> returns the empty context with that error, and the calls made
  are the lookup of the instance and those of the failed resolution: at most one call of
  \<open>GetConfig\<close>, for the home region, so the target region is never resolved. When the
  resolution of the target region fails, it returns the empty context with that error. In
  every case the result is either the empty context with an error, or a context with all
  four clients and the logger set and no error.
\<close>

theorem getRequestContext_all_or_nothing:
  "((im :: 'pc \<Rightarrow> go_error + 'cfg DataSource) pc = Inr inst \<and>
      newAWSConfig inst defaultRegion = (Inl e, t) \<longrightarrow>
        getRequestContext im ds pc region
          = ((RequestContext_zero, Some e), Call_im_Get pc # t) \<and>
        length t \<le> 1 \<and>
        (\<forall>a. Call_GetConfig a \<in> set t \<longrightarrow> auth_Region a = Region (Settings inst))) \<and>
   (im pc = Inr inst \<and> newAWSConfig inst defaultRegion = (Inr c, t1) \<and>
      newAWSConfig inst (if region = defaultRegion then Region (Settings inst) else region)
        = (Inl e', t2) \<longrightarrow>
        getRequestContext im ds pc region
          = ((RequestContext_zero, Some e'), Call_im_Get pc # t1 @ t2)) \<and>
   ((\<exists>err. fst (getRequestContext im ds pc region) = (RequestContext_zero, Some err)) \<or>
    (\<exists>rc. fst (getRequestContext im ds pc region) = (rc, None) \<and>
       OAMAPIProvider rc \<noteq> None \<and> MetricsClientProvider rc \<noteq> None \<and>
       LogsAPIProvider rc \<noteq> None \<and> EC2APIProvider rc \<noteq> None \<and> rc_Logger rc \<noteq> None))"
proof (intro conjI impI)
  assume h: "im pc = Inr inst \<and> newAWSConfig inst defaultRegion = (Inl e, t)"
  then show "getRequestContext im ds pc region
          = ((RequestContext_zero, Some e), Call_im_Get pc # t)"
    by (simp add: getRequestContext_default_fails)
  from h have t: "t = snd (newAWSConfig inst defaultRegion :: (go_error + 'cfg) \<times> ('pc, 'cfg) call list)"
    by simp
  show "length t \<le> 1"
    unfolding t by (rule newAWSConfig_at_most_one_call)
  show "\<forall>a. Call_GetConfig a \<in> set t \<longrightarrow> auth_Region a = Region (Settings inst)"
    unfolding t by (auto dest: newAWSConfig_calls)
next
  assume "im pc = Inr inst \<and> newAWSConfig inst defaultRegion = (Inr c, t1) \<and>
      newAWSConfig inst (if region = defaultRegion then Region (Settings inst) else region)
        = (Inl e', t2)"
  then show "getRequestContext im ds pc region
          = ((RequestContext_zero, Some e'), Call_im_Get pc # t1 @ t2)"
    by (simp add: getRequestContext_target_fails)
next
  show "(\<exists>err. fst (getRequestContext im ds pc region) = (RequestContext_zero, Some err)) \<or>
    (\<exists>rc. fst (getRequestContext im ds pc region) = (rc, None) \<and>
       OAMAPIProvider rc \<noteq> None \<and> MetricsClientProvider rc \<noteq> None \<and>
       LogsAPIProvider rc \<noteq> None \<and> EC2APIProvider rc \<noteq> None \<and> rc_Logger rc \<noteq> None)"
    using getRequestContext_cases [of im ds pc region] by force
qed

text \<open>
  The second instance has the home region \<open>moon-1\<close>, which the provider does not know:
  asked for \<open>eu-west-1\<close>, the build stops after one call of \<open>GetConfig\<close>. The first
  instance asked for \<open>moon-1\<close> fails on the target region.
\<close>

theorem getRequestContext_all_or_nothing_witness:
  "im_example ''uid-2'' = Inr instance_moon \<and>
   newAWSConfig instance_moon defaultRegion
     = (Inl (Errorf ''unknown region''), [Call_GetConfig moon_settings]) \<and>
   getRequestContext im_example ds_example ''uid-2'' ''eu-west-1''
     = ((RequestContext_zero, Some (Errorf ''unknown region'')),
        [Call_im_Get ''uid-2'', Call_GetConfig moon_settings]) \<and>
   im_example ''uid-1'' = Inr instance_example \<and>
   fst (newAWSConfig instance_example defaultRegion) = Inr ''config for us-east-1'' \<and>
   fst (newAWSConfig instance_example ''moon-1'') = Inl (Errorf ''unknown region'') \<and>
   fst (getRequestContext im_example ds_example ''uid-1'' ''moon-1'')
     = (RequestContext_zero, Some (Errorf ''unknown region''))"
proof -
  let ?t = "[Call_GetConfig moon_settings] :: (string, string) call list"
  have h1: "im_example ''uid-2'' = Inr instance_moon" by (simp add: example_defs)
  have h2: "newAWSConfig instance_moon defaultRegion = (Inl (Errorf ''unknown region''), ?t)"
    by (simp add: newAWSConfig_def Let_def example_defs moon_settings_def)
  have h2': "newAWSConfig instance_moon defaultRegion
     = (Inl (Errorf ''unknown region''), [Call_GetConfig moon_settings])"
    by (simp add: newAWSConfig_def Let_def example_defs moon_settings_def)
  have c1: "getRequestContext im_example ds_example ''uid-2'' ''eu-west-1''
     = ((RequestContext_zero, Some (Errorf ''unknown region'')), Call_im_Get ''uid-2'' # ?t)"
    using getRequestContext_all_or_nothing
      [where im = im_example and pc = "''uid-2''" and inst = instance_moon
         and e = "Errorf ''unknown region''" and t = ?t and ds = ds_example
         and region = "''eu-west-1''"] h1 h2
    by blast
  obtain t1 :: "(string, string) call list" where h4:
    "newAWSConfig instance_example defaultRegion = (Inr ''config for us-east-1'', t1)"
    by (simp add: newAWSConfig_def Let_def example_defs)
  obtain t2 :: "(string, string) call list" where h5:
    "newAWSConfig instance_example ''moon-1'' = (Inl (Errorf ''unknown region''), t2)"
    by (simp add: newAWSConfig_def Let_def example_defs)
  have h3: "im_example ''uid-1'' = Inr instance_example" by (simp add: example_defs)
  have h5': "newAWSConfig instance_example
       (if ''moon-1'' = defaultRegion then Region (Settings instance_example) else ''moon-1'')
       = (Inl (Errorf ''unknown region''), t2)"
    using h5 by (simp add: defaultRegion_def)
  have c2: "getRequestContext im_example ds_example ''uid-1'' ''moon-1''
     = ((RequestContext_zero, Some (Errorf ''unknown region'')), Call_im_Get ''uid-1'' # t1 @ t2)"
    using getRequestContext_all_or_nothing
      [where im = im_example and pc = "''uid-1''" and inst = instance_example
         and c = "''config for us-east-1''" and ?t1.0 = t1 and ?t2.0 = t2
         and e' = "Errorf ''unknown region''" and ds = ds_example
         and region = "''moon-1''"] h3 h4 h5'
    by blast
  have v1: "fst (newAWSConfig instance_example defaultRegion) = Inr ''config for us-east-1''"
    by (simp add: newAWSConfig_def Let_def example_defs)
  have v2: "fst (newAWSConfig instance_example ''moon-1'') = Inl (Errorf ''unknown region'')"
    by (simp add: newAWSConfig_def Let_def example_defs)
  show ?thesis using h1 h2' c1 h3 v1 v2 c2 by simp
qed

subsection \<open>The settings-only request context and the external id\<close>

text \<open>
  Claim C4. \<open>getRequestContextOnlySettings\<close> always returns a context whose four
  capability clients are nil; its only call is the lookup of the instance, so it resolves
  no configuration; when the lookup succeeds the context holds the settings of the instance
  and a logger, and nothing else. \<open>ExternalIdHandler\<close> returns, for every factory that
  gives it a context, the JSON object whose member \<open>externalId\<close> is the external id of that
  context's settings. On the settings-only factory it therefore succeeds, answered with
  status 200, whenever the lookup of the instance succeeds, with the external id of the
  instance's settings; when the lookup fails it returns the HTTP error of status 500.
\<close>

theorem settings_only_context_and_external_id:
  "OAMAPIProvider (fst (fst (getRequestContextOnlySettings im ds pc region))) = None \<and>
   MetricsClientProvider (fst (fst (getRequestContextOnlySettings im ds pc region))) = None \<and>
   LogsAPIProvider (fst (fst (getRequestContextOnlySettings im ds pc region))) = None \<and>
   EC2APIProvider (fst (fst (getRequestContextOnlySettings im ds pc region))) = None \<and>
   snd (getRequestContextOnlySettings im ds pc region) = [Call_im_Get pc] \<and>
   (im pc = Inr inst \<longrightarrow>
      fst (getRequestContextOnlySettings im ds pc region)
        = (\<lparr>OAMAPIProvider = None, MetricsClientProvider = None, LogsAPIProvider = None,
            EC2APIProvider = None, rc_Settings = Settings inst,
            rc_Logger = Some (FromContext (logger ds))\<rparr>, None)) \<and>
   (reqCtxBeforeAuth [] = (rc, None) \<longrightarrow>
      ExternalIdHandler (json_Marshal_ExternalIdResponse json_string) reqCtxBeforeAuth
          parameters
        = (Inr (''{'' @ [CHR 0x22] @ ''externalId'' @ [CHR 0x22] @ '':'' @
                json_string (ExternalID (GrafanaSettings (rc_Settings rc))) @ ''}''),
           [Call_reqCtxFactory []])) \<and>
   (im pc = Inr inst \<longrightarrow>
      fst (ExternalIdHandler (json_Marshal_ExternalIdResponse json_string)
             (\<lambda>r. fst (getRequestContextOnlySettings im ds pc r)) parameters)
        = Inr (''{'' @ [CHR 0x22] @ ''externalId'' @ [CHR 0x22] @ '':'' @
               json_string (ExternalID (GrafanaSettings (Settings inst))) @ ''}'') \<and>
      response_status
        (fst (ExternalIdHandler (json_Marshal_ExternalIdResponse json_string)
                (\<lambda>r. fst (getRequestContextOnlySettings im ds pc r)) parameters)) = 200) \<and>
   (im pc = Inl e \<longrightarrow>
      fst (ExternalIdHandler (json_Marshal_ExternalIdResponse json_string)
             (\<lambda>r. fst (getRequestContextOnlySettings im ds pc r)) parameters)
        = Inl (NewHttpError ''error in ExternalIdHandler'' 500 e) \<and>
      response_status
        (fst (ExternalIdHandler (json_Marshal_ExternalIdResponse json_string)
                (\<lambda>r. fst (getRequestContextOnlySettings im ds pc r)) parameters)) = 500)"
  by (cases "im pc")
     (simp_all add: getRequestContextOnlySettings_eq ExternalIdHandler_def
        json_Marshal_ExternalIdResponse_def response_status_def RequestContext_zero_def
        StatusOK_def StatusInternalServerError_def)

text \<open>
  The first instance has the external id \<open>ext-42\<close>; no instance has the key \<open>uid-9\<close>.
  The string \<open>ext-42\<close> needs no escape, so its literal is the string between quotes.
\<close>

theorem settings_only_context_and_external_id_witness:
  "im_example ''uid-1'' = Inr instance_example \<and>
   fst (getRequestContextOnlySettings im_example ds_example ''uid-1'' [])
     = (\<lparr>OAMAPIProvider = None, MetricsClientProvider = None, LogsAPIProvider = None,
         EC2APIProvider = None, rc_Settings = settings_example,
         rc_Logger =
           Some (FromContext (NewLoggerWith ''logger'' ''grafana-cloudwatch-datasource''))\<rparr>,
        None) \<and>
   snd (getRequestContextOnlySettings im_example ds_example ''uid-1'' []) = [Call_im_Get ''uid-1''] \<and>
   ExternalIdHandler (json_Marshal_ExternalIdResponse quoted) factory_before_auth Map.empty
     = (Inr (''{'' @ quoted ''externalId'' @ '':'' @ quoted ''ext-42'' @ ''}''),
        [Call_reqCtxFactory []]) \<and>
   response_status
     (fst (ExternalIdHandler (json_Marshal_ExternalIdResponse quoted) factory_before_auth
             Map.empty)) = 200 \<and>
   im_example ''uid-9'' = Inl (Errorf ''no such instance'') \<and>
   fst (getRequestContextOnlySettings im_example ds_example ''uid-9'' [])
     = (RequestContext_zero, Some (Errorf ''no such instance'')) \<and>
   fst (ExternalIdHandler (json_Marshal_ExternalIdResponse quoted)
          (\<lambda>r. fst (getRequestContextOnlySettings im_example ds_example ''uid-9'' r)) Map.empty)
     = Inl (NewHttpError ''error in ExternalIdHandler'' 500 (Errorf ''no such instance''))"
proof -
  let ?rc = "\<lparr>OAMAPIProvider = None, MetricsClientProvider = None, LogsAPIProvider = None,
         EC2APIProvider = None, rc_Settings = settings_example,
         rc_Logger =
           Some (FromContext (NewLoggerWith ''logger'' ''grafana-cloudwatch-datasource''))\<rparr>
        :: string RequestContext"
  note T = settings_only_context_and_external_id
      [where im = im_example and pc = "''uid-1''" and inst = instance_example
         and ds = ds_example and json_string = quoted and reqCtxBeforeAuth = factory_before_auth
         and rc = ?rc and parameters = Map.empty and region = "[]"]
  note T9 = settings_only_context_and_external_id
      [where im = im_example and pc = "''uid-9''" and e = "Errorf ''no such instance''"
         and ds = ds_example and json_string = quoted
         and parameters = Map.empty and region = "[]"]
  have h1: "im_example ''uid-1'' = Inr instance_example" by (rule im_example_simps)
  have s: "Settings instance_example = settings_example"
    "logger ds_example = NewLoggerWith ''logger'' ''grafana-cloudwatch-datasource''"
    "ExternalID (GrafanaSettings settings_example) = ''ext-42''"
    by (simp_all add: example_defs)
  from T h1 have c0: "fst (getRequestContextOnlySettings im_example ds_example ''uid-1'' [])
     = (\<lparr>OAMAPIProvider = None, MetricsClientProvider = None, LogsAPIProvider = None,
            EC2APIProvider = None, rc_Settings = Settings instance_example,
            rc_Logger = Some (FromContext (logger ds_example))\<rparr>, None)"
    by blast
  then have c1: "fst (getRequestContextOnlySettings im_example ds_example ''uid-1'' []) = (?rc, None)"
    by (simp only: s)
  from T have c2:
    "snd (getRequestContextOnlySettings im_example ds_example ''uid-1'' []) = [Call_im_Get ''uid-1'']"
    by blast
  have h2: "factory_before_auth [] = (?rc, None)"
    using c1 by (simp only: factory_before_auth_def)
  from T h2 have c3:
    "ExternalIdHandler (json_Marshal_ExternalIdResponse quoted) factory_before_auth Map.empty
     = (Inr (''{'' @ [CHR 0x22] @ ''externalId'' @ [CHR 0x22] @ '':'' @
             quoted (ExternalID (GrafanaSettings (rc_Settings ?rc))) @ ''}''),
        [Call_reqCtxFactory []])"
    by blast
  then have c3': "ExternalIdHandler (json_Marshal_ExternalIdResponse quoted) factory_before_auth
       Map.empty
     = (Inr (''{'' @ quoted ''externalId'' @ '':'' @ quoted ''ext-42'' @ ''}''),
        [Call_reqCtxFactory []])"
    by (simp add: s quoted_def)
  have c4: "response_status
     (fst (ExternalIdHandler (json_Marshal_ExternalIdResponse quoted) factory_before_auth
             Map.empty)) = 200"
    by (simp only: c3') (simp add: response_status_def StatusOK_def)
  have h9: "im_example ''uid-9'' = Inl (Errorf ''no such instance'')"
    by (simp add: im_example_def)
  have c5: "fst (getRequestContextOnlySettings im_example ds_example ''uid-9'' [])
     = (RequestContext_zero, Some (Errorf ''no such instance''))"
    by (simp add: getRequestContextOnlySettings_eq h9)
  from T9 h9 have c6: "fst (ExternalIdHandler (json_Marshal_ExternalIdResponse quoted)
          (\<lambda>r. fst (getRequestContextOnlySettings im_example ds_example ''uid-9'' r)) Map.empty)
     = Inl (NewHttpError ''error in ExternalIdHandler'' 500 (Errorf ''no such instance''))"
    by blast
  show ?thesis using h1 c1 c2 c3' c4 h9 c5 c6 by blast
qed

lemmas status_defs =
  StatusOK_def StatusBadRequest_def StatusForbidden_def StatusInternalServerError_def

lemma Values_Get_absent: "parameters key = None \<Longrightarrow> Values_Get parameters key = []"
  by (simp add: Values_Get_def)

subsection \<open>The accounts handler\<close>

text \<open>
  Claim C3. When the \<open>region\<close> parameter is absent, \<open>AccountsHandler\<close> returns the
  HTTP error with status 400 whose cause reads \<open>region is required\<close>, and makes no call:
  the request context factory is not invoked, so no client is built. When the provider call
  fails, the status is 403 if the error is the access-denied sentinel (or wraps it) and 500
  otherwise, and the error is kept as the cause. When the provider call and the encoding
  succeed, the handler returns the JSON encoding of the account list as the encoder gave
  it, answered with status 200.
\<close>

theorem AccountsHandler_responses:
  "(parameters ''region'' = None \<longrightarrow>
      AccountsHandler NewAccountsService json_Marshal reqCtxFactory parameters
        = (Inl (NewHttpError ''error in AccountsHandler'' 400 (Errorf ''region is required'')),
           []) \<and>
      response_status
        (fst (AccountsHandler NewAccountsService json_Marshal reqCtxFactory parameters)) = 400) \<and>
   (Values_Get parameters ''region'' \<noteq> [] \<and>
    reqCtxFactory (Values_Get parameters ''region'') = (rc, None) \<and>
    GetAccountsForCurrentUserOrRole (NewAccountsService (OAMAPIProvider rc)) = Inl err \<longrightarrow>
      fst (AccountsHandler NewAccountsService json_Marshal reqCtxFactory parameters)
        = Inl (NewHttpError ''error getting accounts for current user or role''
                 (if errors_Is err ErrAccessDeniedException then 403 else 500) err) \<and>
      response_status
        (fst (AccountsHandler NewAccountsService json_Marshal reqCtxFactory parameters))
        = (if errors_Is err ErrAccessDeniedException then 403 else 500)) \<and>
   (Values_Get parameters ''region'' \<noteq> [] \<and>
    reqCtxFactory (Values_Get parameters ''region'') = (rc, None) \<and>
    GetAccountsForCurrentUserOrRole (NewAccountsService (OAMAPIProvider rc)) = Inr accounts \<and>
    json_Marshal accounts = Inr body \<longrightarrow>
      fst (AccountsHandler NewAccountsService json_Marshal reqCtxFactory parameters) = Inr body \<and>
      response_status
        (fst (AccountsHandler NewAccountsService json_Marshal reqCtxFactory parameters)) = 200)"
  by (simp add: AccountsHandler_def newAccountsService_def Values_Get_absent Let_def
        response_status_def status_defs)

text \<open>
  No parameter; then the regions \<open>eu-west-1\<close> (access denied), \<open>ap-south-1\<close>
  (throttled) and \<open>us-east-1\<close> (two accounts).
\<close>

theorem AccountsHandler_responses_witness:
  "(Map.empty :: url_Values) ''region'' = None \<and>
   AccountsHandler accounts_service_example marshal_accounts factory_example Map.empty
     = (Inl (NewHttpError ''error in AccountsHandler'' 400 (Errorf ''region is required'')), []) \<and>
   response_status
     (fst (AccountsHandler accounts_service_example marshal_accounts factory_example
             (region_parameter ''eu-west-1''))) = 403 \<and>
   response_status
     (fst (AccountsHandler accounts_service_example marshal_accounts factory_example
             (region_parameter ''ap-south-1''))) = 500 \<and>
   marshal_accounts [(''111'', ''prod''), (''222'', ''dev'')] = Inr accounts_json \<and>
   fst (AccountsHandler accounts_service_example marshal_accounts factory_example
          (region_parameter ''us-east-1'')) = Inr accounts_json"
proof -
  note T = AccountsHandler_responses
      [where NewAccountsService = accounts_service_example
         and json_Marshal = marshal_accounts and reqCtxFactory = factory_example]
  have h0: "(Map.empty :: url_Values) ''region'' = None" by simp
  from T [where parameters = Map.empty] h0 have c0:
    "AccountsHandler accounts_service_example marshal_accounts factory_example Map.empty
     = (Inl (NewHttpError ''error in AccountsHandler'' 400 (Errorf ''region is required'')), [])"
    by blast
  have g: "\<And>r. r \<noteq> [] \<Longrightarrow> Values_Get (region_parameter r) ''region'' = r"
    by (simp add: Values_Get_def region_parameter_def)
  have f: "\<And>r. r \<noteq> ''default'' \<Longrightarrow> r \<noteq> ''moon-1'' \<Longrightarrow>
     factory_example r =
       (\<lparr>OAMAPIProvider = Some (NewOAMAPI (''config for '' @ r)),
         MetricsClientProvider = Some (NewMetricsClient (NewCWClient (''config for '' @ r)) 500),
         LogsAPIProvider = Some (NewLogsAPI (''config for '' @ r)),
         EC2APIProvider = Some (NewEC2API ''config for us-east-1''),
         rc_Settings = settings_example,
         rc_Logger = Some (FromContext (NewLoggerWith ''logger'' ''grafana-cloudwatch-datasource''))\<rparr>,
        None)"
    by (simp add: factory_example_def getRequestContext_def newAWSConfig_def Let_def example_defs)
  have a1: "GetAccountsForCurrentUserOrRole
              (accounts_service_example (Some (NewOAMAPI ''config for eu-west-1'')))
            = Inl (Wrapf ''access denied. please check your IAM policy: oam:ListSinks''
                        ErrAccessDeniedException)"
    by (simp add: accounts_service_example_def)
  have a2: "GetAccountsForCurrentUserOrRole
              (accounts_service_example (Some (NewOAMAPI ''config for ap-south-1'')))
            = Inl (Errorf ''Throttling: rate exceeded'')"
    by (simp add: accounts_service_example_def)
  have a3: "GetAccountsForCurrentUserOrRole
              (accounts_service_example (Some (NewOAMAPI ''config for us-east-1'')))
            = Inr [(''111'', ''prod''), (''222'', ''dev'')]"
    by (simp add: accounts_service_example_def)
  have c1: "response_status
     (fst (AccountsHandler accounts_service_example marshal_accounts factory_example
             (region_parameter ''eu-west-1''))) = 403"
    using T [where parameters = "region_parameter ''eu-west-1''"
               and err = "Wrapf ''access denied. please check your IAM policy: oam:ListSinks''
                        ErrAccessDeniedException"
               and rc = "fst (factory_example ''eu-west-1'')"]
      g [of "''eu-west-1''"] f [of "''eu-west-1''"] a1
    by (simp add: response_status_def)
  have c2: "response_status
     (fst (AccountsHandler accounts_service_example marshal_accounts factory_example
             (region_parameter ''ap-south-1''))) = 500"
    using T [where parameters = "region_parameter ''ap-south-1''"
               and err = "Errorf ''Throttling: rate exceeded''"
               and rc = "fst (factory_example ''ap-south-1'')"]
      g [of "''ap-south-1''"] f [of "''ap-south-1''"] a2
    by (simp add: response_status_def)
  have b: "marshal_accounts [(''111'', ''prod''), (''222'', ''dev'')] = Inr accounts_json"
    by (simp add: marshal_accounts_def accounts_json_def)
  have c3: "fst (AccountsHandler accounts_service_example marshal_accounts factory_example
          (region_parameter ''us-east-1'')) = Inr accounts_json"
    using T [where parameters = "region_parameter ''us-east-1''"
               and accounts = "[(''111'', ''prod''), (''222'', ''dev'')]"
               and body = accounts_json
               and rc = "fst (factory_example ''us-east-1'')"]
      g [of "''us-east-1''"] f [of "''us-east-1''"] a3 b
    by simp
  show ?thesis using h0 c0 c1 c2 c3 b by simp
qed

subsection \<open>The dimension values handler\<close>

text \<open>
  Claim C7. When the filter request cannot be parsed from the query parameters,
  \<open>DimensionValuesHandler\<close> returns the HTTP error with status 400 whose cause is the
  parser's error, and makes no call: no service and no client is built. A failure of the
  service construction, of the provider's dimension value call or of the JSON encoding
  gives status 500 with that failure as the cause. On success the handler returns exactly
  the JSON encoding of the provider's value list, answered with status 200, after building
  the service for the parsed region and calling the provider once.
\<close>

theorem DimensionValuesHandler_responses:
  "(parse parameters = Inl err \<longrightarrow>
      DimensionValuesHandler parse newService json_Marshal reqCtxFactory parameters
        = (Inl (NewHttpError ''error in DimensionValuesHandler'' 400 err), [])) \<and>
   (parse parameters = Inr rq \<and> newService reqCtxFactory (dv_Region rq) = Inl err \<longrightarrow>
      DimensionValuesHandler parse newService json_Marshal reqCtxFactory parameters
        = (Inl (NewHttpError ''error in DimensionValuesHandler'' 500 err),
           [Call_newListMetricsService (dv_Region rq)])) \<and>
   (parse parameters = Inr rq \<and> newService reqCtxFactory (dv_Region rq) = Inr service \<and>
    GetDimensionValuesByDimensionFilter service rq = Inl err \<longrightarrow>
      fst (DimensionValuesHandler parse newService json_Marshal reqCtxFactory parameters)
        = Inl (NewHttpError ''error in DimensionValuesHandler'' 500 err)) \<and>
   (parse parameters = Inr rq \<and> newService reqCtxFactory (dv_Region rq) = Inr service \<and>
    GetDimensionValuesByDimensionFilter service rq = Inr response \<and>
    json_Marshal response = Inl err \<longrightarrow>
      fst (DimensionValuesHandler parse newService json_Marshal reqCtxFactory parameters)
        = Inl (NewHttpError ''error in DimensionValuesHandler'' 500 err)) \<and>
   (parse parameters = Inr rq \<and> newService reqCtxFactory (dv_Region rq) = Inr service \<and>
    GetDimensionValuesByDimensionFilter service rq = Inr response \<and>
    json_Marshal response = Inr body \<longrightarrow>
      DimensionValuesHandler parse newService json_Marshal reqCtxFactory parameters
        = (Inr body, [Call_newListMetricsService (dv_Region rq),
                      Call_GetDimensionValuesByDimensionFilter rq]) \<and>
      response_status
        (fst (DimensionValuesHandler parse newService json_Marshal reqCtxFactory parameters))
        = 200)"
  by (simp add: DimensionValuesHandler_def Let_def response_status_def status_defs)

lemma parse_example_ok:
  "f \<noteq> ''{'' \<Longrightarrow> parse_example (dimension_parameters r k f) = Inr (zone_request r k)"
  by (simp add: parse_example_def dimension_parameters_def Values_Get_def zone_request_def)

lemma parse_example_bad:
  "parse_example (dimension_parameters r k ''{'')
     = Inl (Errorf ''error unmarshaling dimensionFilters: unexpected end of JSON input'')"
  by (simp add: parse_example_def dimension_parameters_def Values_Get_def)

lemma factory_example_ok: "r \<noteq> ''default'' \<Longrightarrow> r \<noteq> ''moon-1'' \<Longrightarrow>
     factory_example r =
       (\<lparr>OAMAPIProvider = Some (NewOAMAPI (''config for '' @ r)),
         MetricsClientProvider = Some (NewMetricsClient (NewCWClient (''config for '' @ r)) 500),
         LogsAPIProvider = Some (NewLogsAPI (''config for '' @ r)),
         EC2APIProvider = Some (NewEC2API ''config for us-east-1''),
         rc_Settings = settings_example,
         rc_Logger = Some (FromContext (NewLoggerWith ''logger'' ''grafana-cloudwatch-datasource''))\<rparr>,
        None)"
  by (simp add: factory_example_def getRequestContext_def newAWSConfig_def Let_def example_defs)

lemma factory_example_moon:
  "factory_example ''moon-1'' = (RequestContext_zero, Some (Errorf ''unknown region''))"
  by (simp add: factory_example_def getRequestContext_def newAWSConfig_def Let_def example_defs)

text \<open>
  A filter that does not parse; the unknown region \<open>moon-1\<close>; an unknown dimension; an
  encoder that fails; and the two availability zones of \<open>us-east-1\<close>.
\<close>

theorem DimensionValuesHandler_responses_witness:
  "parse_example (dimension_parameters ''us-east-1'' ''AvailabilityZone'' ''{'')
     = Inl (Errorf ''error unmarshaling dimensionFilters: unexpected end of JSON input'') \<and>
   DimensionValuesHandler parse_example metrics_service_example marshal_strings factory_example
       (dimension_parameters ''us-east-1'' ''AvailabilityZone'' ''{'')
     = (Inl (NewHttpError ''error in DimensionValuesHandler'' 400
          (Errorf ''error unmarshaling dimensionFilters: unexpected end of JSON input'')), []) \<and>
   DimensionValuesHandler parse_example metrics_service_example marshal_strings factory_example
       (dimension_parameters ''moon-1'' ''AvailabilityZone'' ''{}'')
     = (Inl (NewHttpError ''error in DimensionValuesHandler'' 500 (Errorf ''unknown region'')),
        [Call_newListMetricsService ''moon-1'']) \<and>
   fst (DimensionValuesHandler parse_example metrics_service_example marshal_strings
          factory_example (dimension_parameters ''us-east-1'' ''Color'' ''{}''))
     = Inl (NewHttpError ''error in DimensionValuesHandler'' 500
          (Errorf ''ValidationError: unknown dimension'')) \<and>
   fst (DimensionValuesHandler parse_example metrics_service_example marshal_failing
          factory_example (dimension_parameters ''us-east-1'' ''AvailabilityZone'' ''{}''))
     = Inl (NewHttpError ''error in DimensionValuesHandler'' 500
          (Errorf ''json: unsupported value'')) \<and>
   marshal_strings [''us-east-1a'', ''us-east-1b'']
     = Inr (''['' @ quoted ''us-east-1a'' @ '','' @ quoted ''us-east-1b'' @ '']'') \<and>
   DimensionValuesHandler parse_example metrics_service_example marshal_strings factory_example
       (dimension_parameters ''us-east-1'' ''AvailabilityZone'' ''{}'')
     = (Inr (''['' @ quoted ''us-east-1a'' @ '','' @ quoted ''us-east-1b'' @ '']''),
        [Call_newListMetricsService ''us-east-1'',
         Call_GetDimensionValuesByDimensionFilter (zone_request ''us-east-1'' ''AvailabilityZone'')])"
proof -
  note T = DimensionValuesHandler_responses
      [where parse = parse_example and newService = metrics_service_example
         and reqCtxFactory = factory_example]
  let ?bad = "Errorf ''error unmarshaling dimensionFilters: unexpected end of JSON input''"
  have s1: "metrics_service_example factory_example ''us-east-1''
              = Inr (ListMetricsProvider values_of_dimension)"
    by (simp add: metrics_service_example_def factory_example_ok)
  have s2: "metrics_service_example factory_example ''moon-1'' = Inl (Errorf ''unknown region'')"
    by (simp add: metrics_service_example_def factory_example_moon)
  have v1: "values_of_dimension (zone_request ''us-east-1'' ''AvailabilityZone'')
              = Inr [''us-east-1a'', ''us-east-1b'']"
    by (simp add: values_of_dimension_def zone_request_def)
  have v2: "values_of_dimension (zone_request ''us-east-1'' ''Color'')
              = Inl (Errorf ''ValidationError: unknown dimension'')"
    by (simp add: values_of_dimension_def zone_request_def)
  have m1: "marshal_strings [''us-east-1a'', ''us-east-1b'']
     = Inr (''['' @ quoted ''us-east-1a'' @ '','' @ quoted ''us-east-1b'' @ '']'')"
    by (simp add: marshal_strings_def)
  have m2: "marshal_failing [''us-east-1a'', ''us-east-1b''] = Inl (Errorf ''json: unsupported value'')"
    by (simp add: marshal_failing_def)
  have r: "\<And>r k. dv_Region (zone_request r k) = r" by (simp add: zone_request_def)
  have c1: "DimensionValuesHandler parse_example metrics_service_example marshal_strings
       factory_example (dimension_parameters ''us-east-1'' ''AvailabilityZone'' ''{'')
     = (Inl (NewHttpError ''error in DimensionValuesHandler'' 400 ?bad), [])"
    using T [where json_Marshal = marshal_strings and err = ?bad
               and parameters = "dimension_parameters ''us-east-1'' ''AvailabilityZone'' ''{''"]
      parse_example_bad [of "''us-east-1''" "''AvailabilityZone''"]
    by blast
  have c2: "DimensionValuesHandler parse_example metrics_service_example marshal_strings
       factory_example (dimension_parameters ''moon-1'' ''AvailabilityZone'' ''{}'')
     = (Inl (NewHttpError ''error in DimensionValuesHandler'' 500 (Errorf ''unknown region'')),
        [Call_newListMetricsService ''moon-1''])"
    using T [where json_Marshal = marshal_strings and err = "Errorf ''unknown region''"
               and rq = "zone_request ''moon-1'' ''AvailabilityZone''"
               and parameters = "dimension_parameters ''moon-1'' ''AvailabilityZone'' ''{}''"]
      parse_example_ok [of "''{}''" "''moon-1''" "''AvailabilityZone''"] s2 r
    by simp
  have c3: "fst (DimensionValuesHandler parse_example metrics_service_example marshal_strings
          factory_example (dimension_parameters ''us-east-1'' ''Color'' ''{}''))
     = Inl (NewHttpError ''error in DimensionValuesHandler'' 500
          (Errorf ''ValidationError: unknown dimension''))"
    using T [where json_Marshal = marshal_strings
               and err = "Errorf ''ValidationError: unknown dimension''"
               and rq = "zone_request ''us-east-1'' ''Color''"
               and service = "ListMetricsProvider values_of_dimension"
               and parameters = "dimension_parameters ''us-east-1'' ''Color'' ''{}''"]
      parse_example_ok [of "''{}''" "''us-east-1''" "''Color''"] s1 r v2
    by simp
  have c4: "fst (DimensionValuesHandler parse_example metrics_service_example marshal_failing
          factory_example (dimension_parameters ''us-east-1'' ''AvailabilityZone'' ''{}''))
     = Inl (NewHttpError ''error in DimensionValuesHandler'' 500
          (Errorf ''json: unsupported value''))"
    using T [where json_Marshal = marshal_failing
               and err = "Errorf ''json: unsupported value''"
               and rq = "zone_request ''us-east-1'' ''AvailabilityZone''"
               and service = "ListMetricsProvider values_of_dimension"
               and response = "[''us-east-1a'', ''us-east-1b'']"
               and parameters = "dimension_parameters ''us-east-1'' ''AvailabilityZone'' ''{}''"]
      parse_example_ok [of "''{}''" "''us-east-1''" "''AvailabilityZone''"] s1 r v1 m2
    by simp
  have c5: "DimensionValuesHandler parse_example metrics_service_example marshal_strings
       factory_example (dimension_parameters ''us-east-1'' ''AvailabilityZone'' ''{}'')
     = (Inr (''['' @ quoted ''us-east-1a'' @ '','' @ quoted ''us-east-1b'' @ '']''),
        [Call_newListMetricsService ''us-east-1'',
         Call_GetDimensionValuesByDimensionFilter (zone_request ''us-east-1'' ''AvailabilityZone'')])"
    using T [where json_Marshal = marshal_strings
               and body = "''['' @ quoted ''us-east-1a'' @ '','' @ quoted ''us-east-1b'' @ '']''"
               and rq = "zone_request ''us-east-1'' ''AvailabilityZone''"
               and service = "ListMetricsProvider values_of_dimension"
               and response = "[''us-east-1a'', ''us-east-1b'']"
               and parameters = "dimension_parameters ''us-east-1'' ''AvailabilityZone'' ''{}''"]
      parse_example_ok [of "''{}''" "''us-east-1''" "''AvailabilityZone''"] s1 r v1 m1
    by simp
  show ?thesis
    using parse_example_bad [of "''us-east-1''" "''AvailabilityZone''"] c1 c2 c3 c4 m1 c5
    by blast
qed

subsection \<open>The simple adapter\<close>

text \<open>
  Claim C9. In \<open>handleResourceReq\<close>, a failure of \<open>ParseForm\<close>, an error of the
  wrapped handler and a failure of the JSON encoding each write status 400 and the text
  \<open>unexpected error\<close> followed by the error's text; after a parse failure the wrapped
  handler is not called. On success the adapter writes status 200 and the JSON encoding of
  the handler's suggestion list. A failed write of the body is logged and changes nothing
  else.
\<close>

theorem handleResourceReq_responses:
  "(ParseForm req = Some err \<longrightarrow>
      handleResourceReq handleFunc json_Marshal rw_Write req
        = [WriteHeader 400, Write (''unexpected error '' @ Error err)] @
          (case rw_Write (''unexpected error '' @ Error err) of
             Some e \<Rightarrow> [Logger_Error ''Unable to write HTTP response'' e]
           | None \<Rightarrow> [])) \<and>
   (ParseForm req = None \<and> handleFunc (URL_Query req) = Inl err \<longrightarrow>
      handleResourceReq handleFunc json_Marshal rw_Write req
        = [Call_handleFunc (URL_Query req),
           WriteHeader 400, Write (''unexpected error '' @ Error err)] @
          (case rw_Write (''unexpected error '' @ Error err) of
             Some e \<Rightarrow> [Logger_Error ''Unable to write HTTP response'' e]
           | None \<Rightarrow> [])) \<and>
   (ParseForm req = None \<and> handleFunc (URL_Query req) = Inr data \<and>
    json_Marshal data = Inl err \<longrightarrow>
      handleResourceReq handleFunc json_Marshal rw_Write req
        = [Call_handleFunc (URL_Query req),
           WriteHeader 400, Write (''unexpected error '' @ Error err)] @
          (case rw_Write (''unexpected error '' @ Error err) of
             Some e \<Rightarrow> [Logger_Error ''Unable to write HTTP response'' e]
           | None \<Rightarrow> [])) \<and>
   (ParseForm req = None \<and> handleFunc (URL_Query req) = Inr data \<and>
    json_Marshal data = Inr body \<longrightarrow>
      handleResourceReq handleFunc json_Marshal rw_Write req
        = [Call_handleFunc (URL_Query req), WriteHeader 200, Write body] @
          (case rw_Write body of
             Some e \<Rightarrow> [Logger_Error ''Unable to write HTTP response'' e]
           | None \<Rightarrow> []))"
  by (simp add: handleResourceReq_def writeResponse_def status_defs)

text \<open>
  A query that does not parse, a handler error, an encoder that fails, and a success whose
  body cannot be written.
\<close>

theorem handleResourceReq_responses_witness:
  "handleResourceReq handle_example marshal_strings rw_ok
       \<lparr>ParseForm = Some (Errorf ''invalid semicolon separator in query''),
        URL_Query = region_parameter ''us-east-1''\<rparr>
     = [WriteHeader 400, Write ''unexpected error invalid semicolon separator in query''] \<and>
   handleResourceReq handle_example marshal_strings rw_ok
       \<lparr>ParseForm = None, URL_Query = Map.empty\<rparr>
     = [Call_handleFunc Map.empty, WriteHeader 400,
        Write ''unexpected error region is missing''] \<and>
   handleResourceReq handle_example marshal_failing rw_ok
       \<lparr>ParseForm = None, URL_Query = region_parameter ''us-east-1''\<rparr>
     = [Call_handleFunc (region_parameter ''us-east-1''), WriteHeader 400,
        Write ''unexpected error json: unsupported value''] \<and>
   handleResourceReq handle_example marshal_strings rw_closed
       \<lparr>ParseForm = None, URL_Query = region_parameter ''us-east-1''\<rparr>
     = [Call_handleFunc (region_parameter ''us-east-1''), WriteHeader 200,
        Write (''['' @ quoted ''vol-1'' @ '','' @ quoted ''vol-2'' @ '']''),
        Logger_Error ''Unable to write HTTP response'' (Errorf ''write: broken pipe'')]"
proof -
  note T = handleResourceReq_responses [where handleFunc = handle_example]
  let ?r1 = "\<lparr>ParseForm = Some (Errorf ''invalid semicolon separator in query''),
        URL_Query = region_parameter ''us-east-1''\<rparr>"
  let ?r2 = "\<lparr>ParseForm = None, URL_Query = (Map.empty :: url_Values)\<rparr>"
  let ?r3 = "\<lparr>ParseForm = None, URL_Query = region_parameter ''us-east-1''\<rparr>"
  have h2: "handle_example Map.empty = Inl (Errorf ''region is missing'')"
    by (simp add: handle_example_def Values_Get_def)
  have h3: "handle_example (region_parameter ''us-east-1'') = Inr [''vol-1'', ''vol-2'']"
    by (simp add: handle_example_def Values_Get_def region_parameter_def)
  have m3: "marshal_failing [''vol-1'', ''vol-2''] = Inl (Errorf ''json: unsupported value'')"
    by (simp add: marshal_failing_def)
  have m4: "marshal_strings [''vol-1'', ''vol-2'']
              = Inr (''['' @ quoted ''vol-1'' @ '','' @ quoted ''vol-2'' @ '']'')"
    by (simp add: marshal_strings_def)
  have c1: "handleResourceReq handle_example marshal_strings rw_ok ?r1
     = [WriteHeader 400, Write ''unexpected error invalid semicolon separator in query'']"
    using T [where req = ?r1 and json_Marshal = marshal_strings and rw_Write = rw_ok
               and err = "Errorf ''invalid semicolon separator in query''"]
    by (simp add: rw_ok_def)
  have c2: "handleResourceReq handle_example marshal_strings rw_ok ?r2
     = [Call_handleFunc Map.empty, WriteHeader 400,
        Write ''unexpected error region is missing'']"
    using T [where req = ?r2 and json_Marshal = marshal_strings and rw_Write = rw_ok
               and err = "Errorf ''region is missing''"] h2
    by (simp add: rw_ok_def)
  have c3: "handleResourceReq handle_example marshal_failing rw_ok ?r3
     = [Call_handleFunc (region_parameter ''us-east-1''), WriteHeader 400,
        Write ''unexpected error json: unsupported value'']"
    using T [where req = ?r3 and json_Marshal = marshal_failing and rw_Write = rw_ok
               and err = "Errorf ''json: unsupported value''"
               and data = "[''vol-1'', ''vol-2'']"] h3 m3
    by (simp add: rw_ok_def)
  have c4: "handleResourceReq handle_example marshal_strings rw_closed ?r3
     = [Call_handleFunc (region_parameter ''us-east-1''), WriteHeader 200,
        Write (''['' @ quoted ''vol-1'' @ '','' @ quoted ''vol-2'' @ '']''),
        Logger_Error ''Unable to write HTTP response'' (Errorf ''write: broken pipe'')]"
    using T [where req = ?r3 and json_Marshal = marshal_strings and rw_Write = rw_closed
               and body = "''['' @ quoted ''vol-1'' @ '','' @ quoted ''vol-2'' @ '']''"
               and data = "[''vol-1'', ''vol-2'']"] h3 m4
    by (simp add: rw_closed_def)
  show ?thesis using c1 c2 c3 c4 by blast
qed

subsection \<open>The routing of QueryData\<close>

lemmas query_defs =
  headerFromAlert_def headerFromExpression_def logsQueryMode_def annotationQuery_def
  logAction_def timeSeriesQuery_def

lemma QueryData_empty:
  "Queries req = [] \<Longrightarrow> QueryData json_Unmarshal GetHTTPHeader req = Panic_index_out_of_range"
  by (simp add: QueryData_def)

lemma QueryData_decode_error:
  "Queries req = q # qs \<Longrightarrow> json_Unmarshal (JSON q) = Inl err \<Longrightarrow>
   QueryData json_Unmarshal GetHTTPHeader req = Return_error err"
  by (simp add: QueryData_def)

lemma QueryData_decoded:
  "Queries req = q # qs \<Longrightarrow> json_Unmarshal (JSON q) = Inr model \<Longrightarrow>
   QueryData json_Unmarshal GetHTTPHeader req =
     (if ((Headers req ''FromAlert'' \<noteq> None \<or>
           GetHTTPHeader (Headers req) ''X-Grafana-From-Expr'' \<noteq> []) \<and>
          QueryMode model = ''Logs'') \<or>
         (Type model = [] \<and> QueryMode model = ''Logs'')
      then Return_of (executeSyncLogQuery req)
      else if Type model = ''annotationQuery''
        then Return_of (executeAnnotationQuery (PluginContext req) model q)
      else if Type model = ''logAction'' then Return_of (executeLogActions req)
      else Return_of (executeTimeSeriesQuery req))"
  by (simp add: QueryData_def Let_def query_defs)

lemma QueryData_decoded_path:
  "Queries req = q # qs \<Longrightarrow> json_Unmarshal (JSON q) = Inr model \<Longrightarrow>
   routed (QueryData json_Unmarshal GetHTTPHeader req) =
     Some (if ((Headers req ''FromAlert'' \<noteq> None \<or>
           GetHTTPHeader (Headers req) ''X-Grafana-From-Expr'' \<noteq> []) \<and>
          QueryMode model = ''Logs'') \<or>
         (Type model = [] \<and> QueryMode model = ''Logs'')
      then SyncLog
      else if Type model = ''annotationQuery'' then Annotation
      else if Type model = ''logAction'' then LogActions
      else TimeSeries)"
  by (simp only: QueryData_decoded) simp

lemma QueryData_not_panic:
  "Queries req = q # qs \<Longrightarrow> QueryData json_Unmarshal GetHTTPHeader req \<noteq> Panic_index_out_of_range"
  by (cases "json_Unmarshal (JSON q)") (simp_all add: QueryData_decode_error QueryData_decoded)

lemma QueryData_not_error:
  "Queries req = q # qs \<Longrightarrow> json_Unmarshal (JSON q) = Inr model \<Longrightarrow>
   QueryData json_Unmarshal GetHTTPHeader req \<noteq> Return_error e"
  by (simp only: QueryData_decoded) simp

text \<open>
  Claim C10. \<open>QueryData\<close> reads \<open>req.Queries[0]\<close> and no other query: it panics
  with an index out of range exactly when the query list is empty, and two requests that
  differ only in the queries after the first take the same execution path, and fail with
  the same decoding error.
\<close>

theorem QueryData_reads_first_query_only:
  "((QueryData json_Unmarshal GetHTTPHeader req = Panic_index_out_of_range)
      = (Queries req = [])) \<and>
   routed (QueryData json_Unmarshal GetHTTPHeader (req\<lparr>Queries := q # qs\<rparr>))
     = routed (QueryData json_Unmarshal GetHTTPHeader (req\<lparr>Queries := q # qs'\<rparr>)) \<and>
   ((QueryData json_Unmarshal GetHTTPHeader (req\<lparr>Queries := q # qs\<rparr>) = Return_error e)
      = (QueryData json_Unmarshal GetHTTPHeader (req\<lparr>Queries := q # qs'\<rparr>) = Return_error e))"
proof (intro conjI)
  show "(QueryData json_Unmarshal GetHTTPHeader req = Panic_index_out_of_range)
      = (Queries req = [])"
  proof (cases "Queries req")
    case Nil
    then show ?thesis by (simp add: QueryData_empty)
  next
    case (Cons a as)
    have "QueryData json_Unmarshal GetHTTPHeader req \<noteq> Panic_index_out_of_range"
      using Cons by (rule QueryData_not_panic)
    with Cons show ?thesis by simp
  qed
next
  let ?r = "req\<lparr>Queries := q # qs\<rparr>" and ?r' = "req\<lparr>Queries := q # qs'\<rparr>"
  have q: "Queries ?r = q # qs" "Queries ?r' = q # qs'" by simp_all
  have h: "Headers ?r = Headers req" "Headers ?r' = Headers req" by simp_all
  show "routed (QueryData json_Unmarshal GetHTTPHeader ?r)
     = routed (QueryData json_Unmarshal GetHTTPHeader ?r')"
  proof (cases "json_Unmarshal (JSON q)")
    case (Inl err)
    have "QueryData json_Unmarshal GetHTTPHeader ?r = Return_error err"
      using q(1) Inl by (rule QueryData_decode_error)
    moreover have "QueryData json_Unmarshal GetHTTPHeader ?r' = Return_error err"
      using q(2) Inl by (rule QueryData_decode_error)
    ultimately show ?thesis by simp
  next
    case (Inr model)
    have "routed (QueryData json_Unmarshal GetHTTPHeader ?r)
            = routed (QueryData json_Unmarshal GetHTTPHeader (req\<lparr>Queries := [q]\<rparr>))"
      by (simp add: QueryData_decoded_path [where q = q and qs = qs and model = model]
            QueryData_decoded_path [where q = q and qs = "[]" and model = model] Inr)
    moreover have "routed (QueryData json_Unmarshal GetHTTPHeader ?r')
            = routed (QueryData json_Unmarshal GetHTTPHeader (req\<lparr>Queries := [q]\<rparr>))"
      by (simp add: QueryData_decoded_path [where q = q and qs = qs' and model = model]
            QueryData_decoded_path [where q = q and qs = "[]" and model = model] Inr)
    ultimately show ?thesis by simp
  qed
  show "(QueryData json_Unmarshal GetHTTPHeader ?r = Return_error e)
      = (QueryData json_Unmarshal GetHTTPHeader ?r' = Return_error e)"
  proof (cases "json_Unmarshal (JSON q)")
    case (Inl err)
    have "QueryData json_Unmarshal GetHTTPHeader ?r = Return_error err"
      using q(1) Inl by (rule QueryData_decode_error)
    moreover have "QueryData json_Unmarshal GetHTTPHeader ?r' = Return_error err"
      using q(2) Inl by (rule QueryData_decode_error)
    ultimately show ?thesis by simp
  next
    case (Inr model)
    have "QueryData json_Unmarshal GetHTTPHeader ?r \<noteq> Return_error e"
      using q(1) Inr by (rule QueryData_not_error)
    moreover have "QueryData json_Unmarshal GetHTTPHeader ?r' \<noteq> Return_error e"
      using q(2) Inr by (rule QueryData_not_error)
    ultimately show ?thesis by simp
  qed
qed

text \<open>
  Claim C2. For a request whose first query decodes to a model, \<open>QueryData\<close> returns
  the result of \<open>executeSyncLogQuery\<close> if and only if the query mode is \<open>Logs\<close> and
  either the header \<open>FromAlert\<close> is present, or the header \<open>X-Grafana-From-Expr\<close> is
  not empty, or the type is empty. Otherwise the type decides: \<open>annotationQuery\<close> goes
  to the annotation execution, \<open>logAction\<close> to the log actions, and every other type,
  empty or unknown, to the time series execution. With \<open>FromAlert\<close> present and the
  query mode \<open>Logs\<close> the synchronous log execution is taken whatever the type.
\<close>

theorem QueryData_routing:
  assumes "Queries req = q # qs" and "json_Unmarshal (JSON q) = Inr model"
  shows
    "((QueryData json_Unmarshal GetHTTPHeader req = Return_of (executeSyncLogQuery req)) =
        (((Headers req ''FromAlert'' \<noteq> None \<or>
           GetHTTPHeader (Headers req) ''X-Grafana-From-Expr'' \<noteq> []) \<and>
          QueryMode model = ''Logs'') \<or>
         (Type model = [] \<and> QueryMode model = ''Logs''))) \<and>
     (\<not> (((Headers req ''FromAlert'' \<noteq> None \<or>
           GetHTTPHeader (Headers req) ''X-Grafana-From-Expr'' \<noteq> []) \<and>
          QueryMode model = ''Logs'') \<or>
         (Type model = [] \<and> QueryMode model = ''Logs'')) \<longrightarrow>
        QueryData json_Unmarshal GetHTTPHeader req =
          (if Type model = ''annotationQuery''
             then Return_of (executeAnnotationQuery (PluginContext req) model q)
           else if Type model = ''logAction'' then Return_of (executeLogActions req)
           else Return_of (executeTimeSeriesQuery req))) \<and>
     (Headers req ''FromAlert'' \<noteq> None \<and> QueryMode model = ''Logs'' \<longrightarrow>
        QueryData json_Unmarshal GetHTTPHeader req = Return_of (executeSyncLogQuery req))"
  using assms by (simp add: QueryData_decoded [where q = q and qs = qs and model = model])

lemma unmarshal_example_simps:
  "unmarshal_example ''logs'' = Inr \<lparr>QueryMode = ''Logs'', Type = []\<rparr>"
  "unmarshal_example ''logs, time series'' = Inr \<lparr>QueryMode = ''Logs'', Type = ''timeSeriesQuery''\<rparr>"
  "unmarshal_example ''metrics, annotation'' = Inr \<lparr>QueryMode = ''Metrics'', Type = ''annotationQuery''\<rparr>"
  "unmarshal_example ''logs, action'' = Inr \<lparr>QueryMode = ''Logs'', Type = ''logAction''\<rparr>"
  "unmarshal_example ''metrics'' = Inr \<lparr>QueryMode = ''Metrics'', Type = []\<rparr>"
  by (simp_all add: unmarshal_example_def)

text \<open>
  Seven requests of one query: an alert on a logs query typed as a time series, an
  expression on a log action, a logs query with no type, and four that go by their type.
\<close>

theorem QueryData_routing_witness:
  "QueryData unmarshal_example header_example (request_example [''FromAlert'' \<mapsto> ''true''] [''logs, time series''])
     = Return_of (executeSyncLogQuery (request_example [''FromAlert'' \<mapsto> ''true''] [''logs, time series''])) \<and>
   QueryData unmarshal_example header_example (request_example [''http_X-Grafana-From-Expr'' \<mapsto> ''true''] [''logs, action''])
     = Return_of (executeSyncLogQuery (request_example [''http_X-Grafana-From-Expr'' \<mapsto> ''true''] [''logs, action''])) \<and>
   QueryData unmarshal_example header_example (request_example Map.empty [''logs''])
     = Return_of (executeSyncLogQuery (request_example Map.empty [''logs''])) \<and>
   QueryData unmarshal_example header_example (request_example Map.empty [''logs, action''])
     = Return_of (executeLogActions (request_example Map.empty [''logs, action''])) \<and>
   QueryData unmarshal_example header_example (request_example Map.empty [''metrics, annotation''])
     = Return_of (executeAnnotationQuery ''uid-1''
         \<lparr>QueryMode = ''Metrics'', Type = ''annotationQuery''\<rparr>
         \<lparr>RefID = ''A'', JSON = ''metrics, annotation''\<rparr>) \<and>
   QueryData unmarshal_example header_example (request_example Map.empty [''logs, time series''])
     = Return_of (executeTimeSeriesQuery (request_example Map.empty [''logs, time series''])) \<and>
   QueryData unmarshal_example header_example (request_example [''FromAlert'' \<mapsto> ''true''] [''metrics''])
     = Return_of (executeTimeSeriesQuery (request_example [''FromAlert'' \<mapsto> ''true''] [''metrics'']))"
proof -
  have a1: "Queries (request_example [''FromAlert'' \<mapsto> ''true''] [''logs, time series'']) = [\<lparr>RefID = ''A'', JSON = ''logs, time series''\<rparr>]"
    by (simp add: request_example_def)
  have b1: "unmarshal_example (JSON \<lparr>RefID = ''A'', JSON = ''logs, time series''\<rparr>) = Inr \<lparr>QueryMode = ''Logs'', Type = ''timeSeriesQuery''\<rparr>"
    by (simp add: unmarshal_example_simps)
  note T1 = QueryData_routing
      [where json_Unmarshal = unmarshal_example and GetHTTPHeader = header_example
         and req = "(request_example [''FromAlert'' \<mapsto> ''true''] [''logs, time series''])" and q = "\<lparr>RefID = ''A'', JSON = ''logs, time series''\<rparr>" and qs = "[]"
         and model = "\<lparr>QueryMode = ''Logs'', Type = ''timeSeriesQuery''\<rparr>", OF a1 b1]
  have h1: "Headers (request_example [''FromAlert'' \<mapsto> ''true''] [''logs, time series'']) ''FromAlert'' \<noteq> None \<and>
      QueryMode \<lparr>QueryMode = ''Logs'', Type = ''timeSeriesQuery''\<rparr> = ''Logs''"
    by (simp add: request_example_def)
  have c1: "QueryData unmarshal_example header_example (request_example [''FromAlert'' \<mapsto> ''true''] [''logs, time series''])
     = Return_of (executeSyncLogQuery (request_example [''FromAlert'' \<mapsto> ''true''] [''logs, time series'']))"
    using T1 [THEN conjunct2, THEN conjunct2] h1 by (rule mp)
  have a2: "Queries (request_example [''http_X-Grafana-From-Expr'' \<mapsto> ''true''] [''logs, action'']) = [\<lparr>RefID = ''A'', JSON = ''logs, action''\<rparr>]"
    by (simp add: request_example_def)
  have b2: "unmarshal_example (JSON \<lparr>RefID = ''A'', JSON = ''logs, action''\<rparr>) = Inr \<lparr>QueryMode = ''Logs'', Type = ''logAction''\<rparr>"
    by (simp add: unmarshal_example_simps)
  note T2 = QueryData_routing
      [where json_Unmarshal = unmarshal_example and GetHTTPHeader = header_example
         and req = "(request_example [''http_X-Grafana-From-Expr'' \<mapsto> ''true''] [''logs, action''])" and q = "\<lparr>RefID = ''A'', JSON = ''logs, action''\<rparr>" and qs = "[]"
         and model = "\<lparr>QueryMode = ''Logs'', Type = ''logAction''\<rparr>", OF a2 b2]
  have h2: "(((Headers (request_example [''http_X-Grafana-From-Expr'' \<mapsto> ''true''] [''logs, action'']) ''FromAlert'' \<noteq> None \<or>
           header_example (Headers (request_example [''http_X-Grafana-From-Expr'' \<mapsto> ''true''] [''logs, action''])) ''X-Grafana-From-Expr'' \<noteq> []) \<and>
          QueryMode \<lparr>QueryMode = ''Logs'', Type = ''logAction''\<rparr> = ''Logs'') \<or>
         (Type \<lparr>QueryMode = ''Logs'', Type = ''logAction''\<rparr> = [] \<and> QueryMode \<lparr>QueryMode = ''Logs'', Type = ''logAction''\<rparr> = ''Logs''))"
    by (simp add: request_example_def header_example_def)
  have c2: "QueryData unmarshal_example header_example (request_example [''http_X-Grafana-From-Expr'' \<mapsto> ''true''] [''logs, action''])
     = Return_of (executeSyncLogQuery (request_example [''http_X-Grafana-From-Expr'' \<mapsto> ''true''] [''logs, action'']))"
    using T2 [THEN conjunct1] h2 by (rule iffD2)
  have a3: "Queries (request_example Map.empty [''logs'']) = [\<lparr>RefID = ''A'', JSON = ''logs''\<rparr>]"
    by (simp add: request_example_def)
  have b3: "unmarshal_example (JSON \<lparr>RefID = ''A'', JSON = ''logs''\<rparr>) = Inr \<lparr>QueryMode = ''Logs'', Type = []\<rparr>"
    by (simp add: unmarshal_example_simps)
  note T3 = QueryData_routing
      [where json_Unmarshal = unmarshal_example and GetHTTPHeader = header_example
         and req = "(request_example Map.empty [''logs''])" and q = "\<lparr>RefID = ''A'', JSON = ''logs''\<rparr>" and qs = "[]"
         and model = "\<lparr>QueryMode = ''Logs'', Type = []\<rparr>", OF a3 b3]
  have h3: "(((Headers (request_example Map.empty [''logs'']) ''FromAlert'' \<noteq> None \<or>
           header_example (Headers (request_example Map.empty [''logs''])) ''X-Grafana-From-Expr'' \<noteq> []) \<and>
          QueryMode \<lparr>QueryMode = ''Logs'', Type = []\<rparr> = ''Logs'') \<or>
         (Type \<lparr>QueryMode = ''Logs'', Type = []\<rparr> = [] \<and> QueryMode \<lparr>QueryMode = ''Logs'', Type = []\<rparr> = ''Logs''))"
    by (simp add: request_example_def header_example_def)
  have c3: "QueryData unmarshal_example header_example (request_example Map.empty [''logs''])
     = Return_of (executeSyncLogQuery (request_example Map.empty [''logs'']))"
    using T3 [THEN conjunct1] h3 by (rule iffD2)
  have a4: "Queries (request_example Map.empty [''logs, action'']) = [\<lparr>RefID = ''A'', JSON = ''logs, action''\<rparr>]"
    by (simp add: request_example_def)
  have b4: "unmarshal_example (JSON \<lparr>RefID = ''A'', JSON = ''logs, action''\<rparr>) = Inr \<lparr>QueryMode = ''Logs'', Type = ''logAction''\<rparr>"
    by (simp add: unmarshal_example_simps)
  note T4 = QueryData_routing
      [where json_Unmarshal = unmarshal_example and GetHTTPHeader = header_example
         and req = "(request_example Map.empty [''logs, action''])" and q = "\<lparr>RefID = ''A'', JSON = ''logs, action''\<rparr>" and qs = "[]"
         and model = "\<lparr>QueryMode = ''Logs'', Type = ''logAction''\<rparr>", OF a4 b4]
  have h4: "\<not> (((Headers (request_example Map.empty [''logs, action'']) ''FromAlert'' \<noteq> None \<or>
           header_example (Headers (request_example Map.empty [''logs, action''])) ''X-Grafana-From-Expr'' \<noteq> []) \<and>
          QueryMode \<lparr>QueryMode = ''Logs'', Type = ''logAction''\<rparr> = ''Logs'') \<or>
         (Type \<lparr>QueryMode = ''Logs'', Type = ''logAction''\<rparr> = [] \<and> QueryMode \<lparr>QueryMode = ''Logs'', Type = ''logAction''\<rparr> = ''Logs''))"
    by (simp add: request_example_def header_example_def)
  have d4: "QueryData unmarshal_example header_example (request_example Map.empty [''logs, action'']) =
          (if Type \<lparr>QueryMode = ''Logs'', Type = ''logAction''\<rparr> = ''annotationQuery''
             then Return_of (executeAnnotationQuery (PluginContext (request_example Map.empty [''logs, action''])) \<lparr>QueryMode = ''Logs'', Type = ''logAction''\<rparr> \<lparr>RefID = ''A'', JSON = ''logs, action''\<rparr>)
           else if Type \<lparr>QueryMode = ''Logs'', Type = ''logAction''\<rparr> = ''logAction'' then Return_of (executeLogActions (request_example Map.empty [''logs, action'']))
           else Return_of (executeTimeSeriesQuery (request_example Map.empty [''logs, action''])))"
    using T4 [THEN conjunct2, THEN conjunct1] h4 by (rule mp)
  have c4: "QueryData unmarshal_example header_example (request_example Map.empty [''logs, action''])
     = Return_of (executeLogActions (request_example Map.empty [''logs, action'']))"
    by (simp only: d4) (simp add: request_example_def)
  have a5: "Queries (request_example Map.empty [''metrics, annotation'']) = [\<lparr>RefID = ''A'', JSON = ''metrics, annotation''\<rparr>]"
    by (simp add: request_example_def)
  have b5: "unmarshal_example (JSON \<lparr>RefID = ''A'', JSON = ''metrics, annotation''\<rparr>) = Inr \<lparr>QueryMode = ''Metrics'', Type = ''annotationQuery''\<rparr>"
    by (simp add: unmarshal_example_simps)
  note T5 = QueryData_routing
      [where json_Unmarshal = unmarshal_example and GetHTTPHeader = header_example
         and req = "(request_example Map.empty [''metrics, annotation''])" and q = "\<lparr>RefID = ''A'', JSON = ''metrics, annotation''\<rparr>" and qs = "[]"
         and model = "\<lparr>QueryMode = ''Metrics'', Type = ''annotationQuery''\<rparr>", OF a5 b5]
  have h5: "\<not> (((Headers (request_example Map.empty [''metrics, annotation'']) ''FromAlert'' \<noteq> None \<or>
           header_example (Headers (request_example Map.empty [''metrics, annotation''])) ''X-Grafana-From-Expr'' \<noteq> []) \<and>
          QueryMode \<lparr>QueryMode = ''Metrics'', Type = ''annotationQuery''\<rparr> = ''Logs'') \<or>
         (Type \<lparr>QueryMode = ''Metrics'', Type = ''annotationQuery''\<rparr> = [] \<and> QueryMode \<lparr>QueryMode = ''Metrics'', Type = ''annotationQuery''\<rparr> = ''Logs''))"
    by (simp add: request_example_def header_example_def)
  have d5: "QueryData unmarshal_example header_example (request_example Map.empty [''metrics, annotation'']) =
          (if Type \<lparr>QueryMode = ''Metrics'', Type = ''annotationQuery''\<rparr> = ''annotationQuery''
             then Return_of (executeAnnotationQuery (PluginContext (request_example Map.empty [''metrics, annotation''])) \<lparr>QueryMode = ''Metrics'', Type = ''annotationQuery''\<rparr> \<lparr>RefID = ''A'', JSON = ''metrics, annotation''\<rparr>)
           else if Type \<lparr>QueryMode = ''Metrics'', Type = ''annotationQuery''\<rparr> = ''logAction'' then Return_of (executeLogActions (request_example Map.empty [''metrics, annotation'']))
           else Return_of (executeTimeSeriesQuery (request_example Map.empty [''metrics, annotation''])))"
    using T5 [THEN conjunct2, THEN conjunct1] h5 by (rule mp)
  have c5: "QueryData unmarshal_example header_example (request_example Map.empty [''metrics, annotation''])
     = Return_of (executeAnnotationQuery ''uid-1''
         \<lparr>QueryMode = ''Metrics'', Type = ''annotationQuery''\<rparr>
         \<lparr>RefID = ''A'', JSON = ''metrics, annotation''\<rparr>)"
    by (simp only: d5) (simp add: request_example_def)
  have a6: "Queries (request_example Map.empty [''logs, time series'']) = [\<lparr>RefID = ''A'', JSON = ''logs, time series''\<rparr>]"
    by (simp add: request_example_def)
  have b6: "unmarshal_example (JSON \<lparr>RefID = ''A'', JSON = ''logs, time series''\<rparr>) = Inr \<lparr>QueryMode = ''Logs'', Type = ''timeSeriesQuery''\<rparr>"
    by (simp add: unmarshal_example_simps)
  note T6 = QueryData_routing
      [where json_Unmarshal = unmarshal_example and GetHTTPHeader = header_example
         and req = "(request_example Map.empty [''logs, time series''])" and q = "\<lparr>RefID = ''A'', JSON = ''logs, time series''\<rparr>" and qs = "[]"
         and model = "\<lparr>QueryMode = ''Logs'', Type = ''timeSeriesQuery''\<rparr>", OF a6 b6]
  have h6: "\<not> (((Headers (request_example Map.empty [''logs, time series'']) ''FromAlert'' \<noteq> None \<or>
           header_example (Headers (request_example Map.empty [''logs, time series''])) ''X-Grafana-From-Expr'' \<noteq> []) \<and>
          QueryMode \<lparr>QueryMode = ''Logs'', Type = ''timeSeriesQuery''\<rparr> = ''Logs'') \<or>
         (Type \<lparr>QueryMode = ''Logs'', Type = ''timeSeriesQuery''\<rparr> = [] \<and> QueryMode \<lparr>QueryMode = ''Logs'', Type = ''timeSeriesQuery''\<rparr> = ''Logs''))"
    by (simp add: request_example_def header_example_def)
  have d6: "QueryData unmarshal_example header_example (request_example Map.empty [''logs, time series'']) =
          (if Type \<lparr>QueryMode = ''Logs'', Type = ''timeSeriesQuery''\<rparr> = ''annotationQuery''
             then Return_of (executeAnnotationQuery (PluginContext (request_example Map.empty [''logs, time series''])) \<lparr>QueryMode = ''Logs'', Type = ''timeSeriesQuery''\<rparr> \<lparr>RefID = ''A'', JSON = ''logs, time series''\<rparr>)
           else if Type \<lparr>QueryMode = ''Logs'', Type = ''timeSeriesQuery''\<rparr> = ''logAction'' then Return_of (executeLogActions (request_example Map.empty [''logs, time series'']))
           else Return_of (executeTimeSeriesQuery (request_example Map.empty [''logs, time series''])))"
    using T6 [THEN conjunct2, THEN conjunct1] h6 by (rule mp)
  have c6: "QueryData unmarshal_example header_example (request_example Map.empty [''logs, time series''])
     = Return_of (executeTimeSeriesQuery (request_example Map.empty [''logs, time series'']))"
    by (simp only: d6) (simp add: request_example_def)
  have a7: "Queries (request_example [''FromAlert'' \<mapsto> ''true''] [''metrics'']) = [\<lparr>RefID = ''A'', JSON = ''metrics''\<rparr>]"
    by (simp add: request_example_def)
  have b7: "unmarshal_example (JSON \<lparr>RefID = ''A'', JSON = ''metrics''\<rparr>) = Inr \<lparr>QueryMode = ''Metrics'', Type = []\<rparr>"
    by (simp add: unmarshal_example_simps)
  note T7 = QueryData_routing
      [where json_Unmarshal = unmarshal_example and GetHTTPHeader = header_example
         and req = "(request_example [''FromAlert'' \<mapsto> ''true''] [''metrics''])" and q = "\<lparr>RefID = ''A'', JSON = ''metrics''\<rparr>" and qs = "[]"
         and model = "\<lparr>QueryMode = ''Metrics'', Type = []\<rparr>", OF a7 b7]
  have h7: "\<not> (((Headers (request_example [''FromAlert'' \<mapsto> ''true''] [''metrics'']) ''FromAlert'' \<noteq> None \<or>
           header_example (Headers (request_example [''FromAlert'' \<mapsto> ''true''] [''metrics''])) ''X-Grafana-From-Expr'' \<noteq> []) \<and>
          QueryMode \<lparr>QueryMode = ''Metrics'', Type = []\<rparr> = ''Logs'') \<or>
         (Type \<lparr>QueryMode = ''Metrics'', Type = []\<rparr> = [] \<and> QueryMode \<lparr>QueryMode = ''Metrics'', Type = []\<rparr> = ''Logs''))"
    by (simp add: request_example_def header_example_def)
  have d7: "QueryData unmarshal_example header_example (request_example [''FromAlert'' \<mapsto> ''true''] [''metrics'']) =
          (if Type \<lparr>QueryMode = ''Metrics'', Type = []\<rparr> = ''annotationQuery''
             then Return_of (executeAnnotationQuery (PluginContext (request_example [''FromAlert'' \<mapsto> ''true''] [''metrics''])) \<lparr>QueryMode = ''Metrics'', Type = []\<rparr> \<lparr>RefID = ''A'', JSON = ''metrics''\<rparr>)
           else if Type \<lparr>QueryMode = ''Metrics'', Type = []\<rparr> = ''logAction'' then Return_of (executeLogActions (request_example [''FromAlert'' \<mapsto> ''true''] [''metrics'']))
           else Return_of (executeTimeSeriesQuery (request_example [''FromAlert'' \<mapsto> ''true''] [''metrics''])))"
    using T7 [THEN conjunct2, THEN conjunct1] h7 by (rule mp)
  have c7: "QueryData unmarshal_example header_example (request_example [''FromAlert'' \<mapsto> ''true''] [''metrics''])
     = Return_of (executeTimeSeriesQuery (request_example [''FromAlert'' \<mapsto> ''true''] [''metrics'']))"
    by (simp only: d7) (simp add: request_example_def)
  show ?thesis using c1 c2 c3 c4 c5 c6 c7 by blast
qed

text \<open>No query; then two queries, where the second one changes nothing.\<close>

theorem QueryData_reads_first_query_only_witness:
  "QueryData unmarshal_example header_example (request_example Map.empty [])
     = Panic_index_out_of_range \<and>
   routed (QueryData unmarshal_example header_example
             (request_example Map.empty [''logs, action'', ''logs'']))
     = routed (QueryData unmarshal_example header_example
                 (request_example Map.empty [''logs, action'', ''metrics, annotation''])) \<and>
   routed (QueryData unmarshal_example header_example
             (request_example Map.empty [''logs, action'', ''logs''])) = Some LogActions \<and>
   routed (QueryData unmarshal_example header_example
             (request_example Map.empty [''logs'', ''logs, action''])) = Some SyncLog"
proof -
  note T = QueryData_reads_first_query_only
      [where json_Unmarshal = unmarshal_example and GetHTTPHeader = header_example]
  let ?q = "\<lambda>j. \<lparr>RefID = ''A'', JSON = j\<rparr>"
  have e: "Queries (request_example Map.empty [] :: string QueryDataRequest) = []"
    by (simp add: request_example_def)
  have c0: "QueryData unmarshal_example header_example (request_example Map.empty [])
     = Panic_index_out_of_range"
    using T [where req = "request_example Map.empty []", THEN conjunct1] e by (rule iffD2)
  have r1: "request_example Map.empty [''logs, action'', ''logs'']
      = (request_example Map.empty [''logs, action''])
          \<lparr>Queries := ?q ''logs, action'' # [?q ''logs'']\<rparr>"
    by (simp add: request_example_def)
  have r2: "request_example Map.empty [''logs, action'', ''metrics, annotation'']
      = (request_example Map.empty [''logs, action''])
          \<lparr>Queries := ?q ''logs, action'' # [?q ''metrics, annotation'']\<rparr>"
    by (simp add: request_example_def)
  have c1: "routed (QueryData unmarshal_example header_example
             (request_example Map.empty [''logs, action'', ''logs'']))
     = routed (QueryData unmarshal_example header_example
             (request_example Map.empty [''logs, action'', ''metrics, annotation'']))"
    unfolding r1 r2
    by (rule T [where req = "request_example Map.empty [''logs, action'']",
                THEN conjunct2, THEN conjunct1])
  have a1: "Queries (request_example Map.empty [''logs, action'', ''logs''])
              = ?q ''logs, action'' # [?q ''logs'']"
    by (simp add: request_example_def)
  have b1: "unmarshal_example (JSON (?q ''logs, action''))
              = Inr \<lparr>QueryMode = ''Logs'', Type = ''logAction''\<rparr>"
    by (simp add: unmarshal_example_simps)
  have v1: "routed (QueryData unmarshal_example header_example
             (request_example Map.empty [''logs, action'', ''logs''])) = Some LogActions"
    by (simp only: QueryData_decoded_path
          [where json_Unmarshal = unmarshal_example and q = "?q ''logs, action''"
             and qs = "[?q ''logs'']"
             and model = "\<lparr>QueryMode = ''Logs'', Type = ''logAction''\<rparr>", OF a1 b1])
       (simp add: request_example_def header_example_def)
  have a2: "Queries (request_example Map.empty [''logs'', ''logs, action''])
              = ?q ''logs'' # [?q ''logs, action'']"
    by (simp add: request_example_def)
  have b2: "unmarshal_example (JSON (?q ''logs''))
              = Inr \<lparr>QueryMode = ''Logs'', Type = []\<rparr>"
    by (simp add: unmarshal_example_simps)
  have v2: "routed (QueryData unmarshal_example header_example
             (request_example Map.empty [''logs'', ''logs, action''])) = Some SyncLog"
    by (simp only: QueryData_decoded_path
          [where json_Unmarshal = unmarshal_example and q = "?q ''logs''"
             and qs = "[?q ''logs, action'']"
             and model = "\<lparr>QueryMode = ''Logs'', Type = []\<rparr>", OF a2 b2])
       (simp add: request_example_def header_example_def)
  show ?thesis using c0 c1 v1 v2 by blast
qed

subsection \<open>The health check\<close>

lemma checkHealthMetrics_no_instance:
  "im pc = Inl e \<Longrightarrow>
   checkHealthMetrics im ListMetricsWithPageLimit pc = (Some e, [Call_im_Get pc])"
  by (simp add: checkHealthMetrics_def)

lemma checkHealthLogs_no_instance:
  "im pc = Inl e \<Longrightarrow> checkHealthLogs im DescribeLogGroups pc = (Some e, [Call_im_Get pc])"
  by (simp add: checkHealthLogs_def getAWSConfig_def)

lemma checkHealthMetrics_no_config:
  "im pc = Inr inst \<Longrightarrow> newAWSConfig inst defaultRegion = (Inl e, t) \<Longrightarrow>
   checkHealthMetrics im ListMetricsWithPageLimit pc = (Some e, Call_im_Get pc # t)"
  by (simp add: checkHealthMetrics_def)

lemma checkHealthLogs_no_config:
  "im pc = Inr inst \<Longrightarrow> newAWSConfig inst defaultRegion = (Inl e, t) \<Longrightarrow>
   checkHealthLogs im DescribeLogGroups pc = (Some e, Call_im_Get pc # t)"
  by (simp add: checkHealthLogs_def getAWSConfig_def)

lemma checkHealthMetrics_config:
  "im pc = Inr inst \<Longrightarrow> newAWSConfig inst defaultRegion = (Inr cfg, t) \<Longrightarrow>
   checkHealthMetrics im ListMetricsWithPageLimit pc
     = (ListMetricsWithPageLimit
          (NewMetricsClient (NewCWClient cfg)
             (ListMetricsPageLimit (GrafanaSettings (Settings inst))))
          \<lparr>Namespace = ''AWS/Billing'', MetricName = ''EstimatedCharges''\<rparr>,
        Call_im_Get pc # t @
        [Call_ListMetricsWithPageLimit
           (NewMetricsClient (NewCWClient cfg)
              (ListMetricsPageLimit (GrafanaSettings (Settings inst))))
           \<lparr>Namespace = ''AWS/Billing'', MetricName = ''EstimatedCharges''\<rparr>])"
  by (simp add: checkHealthMetrics_def Let_def)

lemma checkHealthLogs_config:
  "im pc = Inr inst \<Longrightarrow> newAWSConfig inst defaultRegion = (Inr cfg, t) \<Longrightarrow>
   checkHealthLogs im DescribeLogGroups pc
     = (DescribeLogGroups (NewLogsAPI cfg) \<lparr>Limit = 1\<rparr>,
        Call_im_Get pc # t @ [Call_DescribeLogGroups (NewLogsAPI cfg) \<lparr>Limit = 1\<rparr>])"
  by (simp add: checkHealthLogs_def getAWSConfig_def Let_def)

lemma CheckHealth_eq:
  "checkHealthMetrics im ListMetricsWithPageLimit pc = (m, t1) \<Longrightarrow>
   checkHealthLogs im DescribeLogGroups pc = (l, t2) \<Longrightarrow>
   CheckHealth im ListMetricsWithPageLimit DescribeLogGroups pc
     = (\<lparr>Status = (if m = None \<and> l = None then HealthStatusOk else HealthStatusError),
         Message =
           ''1. '' @
           (case m of
              None \<Rightarrow> ''Successfully queried the CloudWatch metrics API.''
            | Some e \<Rightarrow> ''CloudWatch metrics query failed: '' @ Error e) @
           [newline] @ ''2. '' @
           (case l of
              None \<Rightarrow> ''Successfully queried the CloudWatch logs API.''
            | Some e \<Rightarrow> ''CloudWatch logs query failed: '' @ Error e)\<rparr>,
        t1 @ t2)"
  by (cases m; cases l) (simp_all add: CheckHealth_def Let_def)

lemma no_newline_filter: "newline \<notin> set s \<Longrightarrow> filter (\<lambda>c. c = newline) s = []"
  by (induction s) auto

lemma line_count_two:
  "newline \<notin> set a \<Longrightarrow> newline \<notin> set b \<Longrightarrow> line_count (a @ [newline] @ b) = 2"
  by (simp add: line_count_def no_newline_filter)

lemma outcome_text_one_line:
  "(\<forall>e. r = Some e \<longrightarrow> newline \<notin> set (Error e)) \<Longrightarrow> newline \<notin> set pre \<Longrightarrow>
   newline \<notin> set ok \<Longrightarrow> newline \<notin> set failed \<Longrightarrow>
   newline \<notin> set (pre @ (case r of None \<Rightarrow> ok | Some e \<Rightarrow> failed @ Error e))"
  by (cases r) auto


text \<open>
  Claim C8, as amended. \<open>CheckHealth\<close> runs the metrics check and then the logs check,
  whatever the first one gave. The status is ok if and only if both checks return no
  error, and error if either returns one. The message is \<open>1.\<close> and the metrics outcome,
  a line feed, and \<open>2.\<close> and the logs outcome: exactly two lines whenever no error text
  holds a line feed. Both checks resolve the configuration of the default region: with the
  instance found and that configuration resolved, the metrics check lists the metric
  \<open>EstimatedCharges\<close> of \<open>AWS/Billing\<close> and the logs check describes log groups with
  limit 1, each on a client built from it, and every call of \<open>GetConfig\<close> made by the
  health check carries the home region of the instance.
\<close>

theorem CheckHealth_status_and_message:
  "(checkHealthMetrics im ListMetricsWithPageLimit pc = (m, t1) \<and>
    checkHealthLogs im DescribeLogGroups pc = (l, t2) \<longrightarrow>
      ((Status (fst (CheckHealth im ListMetricsWithPageLimit DescribeLogGroups pc))
          = HealthStatusOk) = (m = None \<and> l = None)) \<and>
      ((Status (fst (CheckHealth im ListMetricsWithPageLimit DescribeLogGroups pc))
          = HealthStatusError) = (m \<noteq> None \<or> l \<noteq> None)) \<and>
      Message (fst (CheckHealth im ListMetricsWithPageLimit DescribeLogGroups pc))
        = ''1. '' @
          (case m of
             None \<Rightarrow> ''Successfully queried the CloudWatch metrics API.''
           | Some e \<Rightarrow> ''CloudWatch metrics query failed: '' @ Error e) @
          [newline] @ ''2. '' @
          (case l of
             None \<Rightarrow> ''Successfully queried the CloudWatch logs API.''
           | Some e \<Rightarrow> ''CloudWatch logs query failed: '' @ Error e) \<and>
      snd (CheckHealth im ListMetricsWithPageLimit DescribeLogGroups pc) = t1 @ t2 \<and>
      ((\<forall>e. m = Some e \<longrightarrow> newline \<notin> set (Error e)) \<and>
       (\<forall>e. l = Some e \<longrightarrow> newline \<notin> set (Error e)) \<longrightarrow>
         line_count (Message (fst (CheckHealth im ListMetricsWithPageLimit
                                     DescribeLogGroups pc))) = 2)) \<and>
   ((im :: 'pc \<Rightarrow> go_error + 'cfg DataSource) pc = Inr inst \<and>
    newAWSConfig inst defaultRegion = (Inr cfg, t) \<longrightarrow>
      checkHealthMetrics im ListMetricsWithPageLimit pc
        = (ListMetricsWithPageLimit
             (NewMetricsClient (NewCWClient cfg)
                (ListMetricsPageLimit (GrafanaSettings (Settings inst))))
             \<lparr>Namespace = ''AWS/Billing'', MetricName = ''EstimatedCharges''\<rparr>,
           Call_im_Get pc # t @
           [Call_ListMetricsWithPageLimit
              (NewMetricsClient (NewCWClient cfg)
                 (ListMetricsPageLimit (GrafanaSettings (Settings inst))))
              \<lparr>Namespace = ''AWS/Billing'', MetricName = ''EstimatedCharges''\<rparr>]) \<and>
      checkHealthLogs im DescribeLogGroups pc
        = (DescribeLogGroups (NewLogsAPI cfg) \<lparr>Limit = 1\<rparr>,
           Call_im_Get pc # t @ [Call_DescribeLogGroups (NewLogsAPI cfg) \<lparr>Limit = 1\<rparr>])) \<and>
   (im pc = Inr inst \<longrightarrow>
      (\<forall>a. Call_GetConfig a
              \<in> set (snd (CheckHealth im ListMetricsWithPageLimit DescribeLogGroups pc)) \<longrightarrow>
           auth_Region a = Region (Settings inst)))"
proof (intro conjI impI allI)
  assume h: "checkHealthMetrics im ListMetricsWithPageLimit pc = (m, t1) \<and>
    checkHealthLogs im DescribeLogGroups pc = (l, t2)"
  note E = CheckHealth_eq [where im = im and pc = pc and m = m and l = l
             and ?t1.0 = t1 and ?t2.0 = t2
             and ListMetricsWithPageLimit = ListMetricsWithPageLimit
             and DescribeLogGroups = DescribeLogGroups]
  from h have eq: "CheckHealth im ListMetricsWithPageLimit DescribeLogGroups pc
     = (\<lparr>Status = (if m = None \<and> l = None then HealthStatusOk else HealthStatusError),
         Message =
           ''1. '' @
           (case m of
              None \<Rightarrow> ''Successfully queried the CloudWatch metrics API.''
            | Some e \<Rightarrow> ''CloudWatch metrics query failed: '' @ Error e) @
           [newline] @ ''2. '' @
           (case l of
              None \<Rightarrow> ''Successfully queried the CloudWatch logs API.''
            | Some e \<Rightarrow> ''CloudWatch logs query failed: '' @ Error e)\<rparr>,
        t1 @ t2)"
    using E by blast
  show "(Status (fst (CheckHealth im ListMetricsWithPageLimit DescribeLogGroups pc))
          = HealthStatusOk) = (m = None \<and> l = None)"
    by (simp add: eq)
  show "(Status (fst (CheckHealth im ListMetricsWithPageLimit DescribeLogGroups pc))
          = HealthStatusError) = (m \<noteq> None \<or> l \<noteq> None)"
    by (simp add: eq)
  show "Message (fst (CheckHealth im ListMetricsWithPageLimit DescribeLogGroups pc))
        = ''1. '' @
          (case m of
             None \<Rightarrow> ''Successfully queried the CloudWatch metrics API.''
           | Some e \<Rightarrow> ''CloudWatch metrics query failed: '' @ Error e) @
          [newline] @ ''2. '' @
          (case l of
             None \<Rightarrow> ''Successfully queried the CloudWatch logs API.''
           | Some e \<Rightarrow> ''CloudWatch logs query failed: '' @ Error e)"
    by (simp add: eq)
  show "snd (CheckHealth im ListMetricsWithPageLimit DescribeLogGroups pc) = t1 @ t2"
    by (simp add: eq)
  assume n: "(\<forall>e. m = Some e \<longrightarrow> newline \<notin> set (Error e)) \<and>
       (\<forall>e. l = Some e \<longrightarrow> newline \<notin> set (Error e))"
  have a: "newline \<notin> set (''1. '' @
          (case m of
             None \<Rightarrow> ''Successfully queried the CloudWatch metrics API.''
           | Some e \<Rightarrow> ''CloudWatch metrics query failed: '' @ Error e))"
    using n by (intro outcome_text_one_line) (simp_all add: newline_def)
  have b: "newline \<notin> set (''2. '' @
          (case l of
             None \<Rightarrow> ''Successfully queried the CloudWatch logs API.''
           | Some e \<Rightarrow> ''CloudWatch logs query failed: '' @ Error e))"
    using n by (intro outcome_text_one_line) (simp_all add: newline_def)
  have "Message (fst (CheckHealth im ListMetricsWithPageLimit DescribeLogGroups pc))
          = (''1. '' @
          (case m of
             None \<Rightarrow> ''Successfully queried the CloudWatch metrics API.''
           | Some e \<Rightarrow> ''CloudWatch metrics query failed: '' @ Error e)) @ [newline] @
            (''2. '' @
          (case l of
             None \<Rightarrow> ''Successfully queried the CloudWatch logs API.''
           | Some e \<Rightarrow> ''CloudWatch logs query failed: '' @ Error e))"
    by (simp add: eq)
  then show "line_count (Message (fst (CheckHealth im ListMetricsWithPageLimit
                                     DescribeLogGroups pc))) = 2"
    using line_count_two [OF a b] by simp
next
  assume h: "im pc = Inr inst \<and> newAWSConfig inst defaultRegion = (Inr cfg, t)"
  then show "checkHealthMetrics im ListMetricsWithPageLimit pc
        = (ListMetricsWithPageLimit
             (NewMetricsClient (NewCWClient cfg)
                (ListMetricsPageLimit (GrafanaSettings (Settings inst))))
             \<lparr>Namespace = ''AWS/Billing'', MetricName = ''EstimatedCharges''\<rparr>,
           Call_im_Get pc # t @
           [Call_ListMetricsWithPageLimit
              (NewMetricsClient (NewCWClient cfg)
                 (ListMetricsPageLimit (GrafanaSettings (Settings inst))))
              \<lparr>Namespace = ''AWS/Billing'', MetricName = ''EstimatedCharges''\<rparr>])"
    by (simp add: checkHealthMetrics_config)
  from h show "checkHealthLogs im DescribeLogGroups pc
        = (DescribeLogGroups (NewLogsAPI cfg) \<lparr>Limit = 1\<rparr>,
           Call_im_Get pc # t @ [Call_DescribeLogGroups (NewLogsAPI cfg) \<lparr>Limit = 1\<rparr>])"
    by (simp add: checkHealthLogs_config)
next
  fix a
  assume i: "im pc = Inr inst"
    and a: "Call_GetConfig a
              \<in> set (snd (CheckHealth im ListMetricsWithPageLimit DescribeLogGroups pc))"
  let ?d = "newAWSConfig inst defaultRegion :: (go_error + 'cfg) \<times> ('pc, 'cfg) call list"
  obtain m t1 where m: "checkHealthMetrics im ListMetricsWithPageLimit pc = (m, t1)"
    by (cases "checkHealthMetrics im ListMetricsWithPageLimit pc")
  obtain l t2 where l: "checkHealthLogs im DescribeLogGroups pc = (l, t2)"
    by (cases "checkHealthLogs im DescribeLogGroups pc")
  have s: "snd (CheckHealth im ListMetricsWithPageLimit DescribeLogGroups pc) = t1 @ t2"
    using CheckHealth_eq [where im = im and pc = pc and m = m and l = l
             and ?t1.0 = t1 and ?t2.0 = t2
             and ListMetricsWithPageLimit = ListMetricsWithPageLimit
             and DescribeLogGroups = DescribeLogGroups] m l
    by simp
  have t1: "\<forall>b. Call_GetConfig b \<in> set t1 \<longrightarrow> Call_GetConfig b \<in> set (snd ?d)"
    using i m by (auto simp: checkHealthMetrics_def Let_def split: prod.splits sum.splits)
  have t2: "\<forall>b. Call_GetConfig b \<in> set t2 \<longrightarrow> Call_GetConfig b \<in> set (snd ?d)"
    using i l
    by (auto simp: checkHealthLogs_def getAWSConfig_def Let_def split: prod.splits sum.splits)
  from a s t1 t2 have "Call_GetConfig a \<in> set (snd ?d)" by auto
  then show "auth_Region a = Region (Settings inst)"
    by (auto dest: newAWSConfig_calls)
qed


text \<open>
  The first instance passes both checks; the second, whose home region the provider does
  not know, fails both.
\<close>

theorem CheckHealth_status_and_message_witness:
  "Status (fst (CheckHealth im_example list_metrics_example describe_log_groups_example ''uid-1''))
     = HealthStatusOk \<and>
   Message (fst (CheckHealth im_example list_metrics_example describe_log_groups_example ''uid-1''))
     = ''1. Successfully queried the CloudWatch metrics API.'' @ [newline] @
       ''2. Successfully queried the CloudWatch logs API.'' \<and>
   line_count
     (Message (fst (CheckHealth im_example list_metrics_example describe_log_groups_example
                      ''uid-1''))) = 2 \<and>
   snd (CheckHealth im_example list_metrics_example describe_log_groups_example ''uid-1'')
     = [Call_im_Get ''uid-1'', Call_GetConfig home_settings,
        Call_ListMetricsWithPageLimit
          (NewMetricsClient (NewCWClient ''config for us-east-1'') 500)
          \<lparr>Namespace = ''AWS/Billing'', MetricName = ''EstimatedCharges''\<rparr>,
        Call_im_Get ''uid-1'', Call_GetConfig home_settings,
        Call_DescribeLogGroups (NewLogsAPI ''config for us-east-1'') \<lparr>Limit = 1\<rparr>] \<and>
   Status (fst (CheckHealth im_example list_metrics_example describe_log_groups_example ''uid-2''))
     = HealthStatusError \<and>
   Message (fst (CheckHealth im_example list_metrics_example describe_log_groups_example ''uid-2''))
     = ''1. CloudWatch metrics query failed: unknown region'' @ [newline] @
       ''2. CloudWatch logs query failed: unknown region'' \<and>
   newline \<notin> set (Error (Errorf ''unknown region'')) \<and>
   line_count
     (Message (fst (CheckHealth im_example list_metrics_example describe_log_groups_example
                      ''uid-2''))) = 2 \<and>
   auth_Region home_settings = Region (Settings instance_example)"
proof -
  let ?client = "NewMetricsClient (NewCWClient ''config for us-east-1'') 500"
  let ?params = "\<lparr>Namespace = ''AWS/Billing'', MetricName = ''EstimatedCharges''\<rparr>"
  let ?t1 = "[Call_im_Get ''uid-1'', Call_GetConfig home_settings,
              Call_ListMetricsWithPageLimit ?client ?params] :: (string, string) call list"
  let ?t2 = "[Call_im_Get ''uid-1'', Call_GetConfig home_settings,
              Call_DescribeLogGroups (NewLogsAPI ''config for us-east-1'') \<lparr>Limit = 1\<rparr>]
               :: (string, string) call list"
  note T = CheckHealth_status_and_message
      [where im = im_example and ListMetricsWithPageLimit = list_metrics_example
         and DescribeLogGroups = describe_log_groups_example]
  note T1 = T [where pc = "''uid-1''" and inst = instance_example
                 and cfg = "''config for us-east-1''" and t = "[Call_GetConfig home_settings]"
                 and m = None and l = None and ?t1.0 = ?t1 and ?t2.0 = ?t2]
  have d1: "im_example ''uid-1'' = Inr instance_example \<and>
            newAWSConfig instance_example defaultRegion
              = (Inr ''config for us-east-1'',
                 [Call_GetConfig home_settings] :: (string, string) call list)"
    by (simp add: im_example_simps instance_example_default)
  have lm: "list_metrics_example ?client ?params = None"
    by (simp add: list_metrics_example_def)
  have dl: "describe_log_groups_example (NewLogsAPI ''config for us-east-1'') \<lparr>Limit = 1\<rparr> = None"
    by (simp add: describe_log_groups_example_def)
  from T1 [THEN conjunct2, THEN conjunct1] d1 have k1:
    "checkHealthMetrics im_example list_metrics_example ''uid-1'' = (None, ?t1) \<and>
     checkHealthLogs im_example describe_log_groups_example ''uid-1'' = (None, ?t2)"
    by (simp add: limit_example lm dl)
  note R1 = T1 [THEN conjunct1, rule_format, OF k1]
  have l1: "(\<forall>e. (None :: go_error option) = Some e \<longrightarrow> newline \<notin> set (Error e)) \<and>
            (\<forall>e. (None :: go_error option) = Some e \<longrightarrow> newline \<notin> set (Error e))"
    by simp
  have c1: "Status (fst (CheckHealth im_example list_metrics_example
                           describe_log_groups_example ''uid-1'')) = HealthStatusOk"
    using R1 [THEN conjunct1] by simp
  have c2: "Message (fst (CheckHealth im_example list_metrics_example
                            describe_log_groups_example ''uid-1''))
     = ''1. Successfully queried the CloudWatch metrics API.'' @ [newline] @
       ''2. Successfully queried the CloudWatch logs API.''"
    using R1 [THEN conjunct2, THEN conjunct2, THEN conjunct1] by simp
  have c3: "line_count (Message (fst (CheckHealth im_example list_metrics_example
                           describe_log_groups_example ''uid-1''))) = 2"
    using R1 [THEN conjunct2, THEN conjunct2, THEN conjunct2, THEN conjunct2] l1 by (rule mp)
  have c4: "snd (CheckHealth im_example list_metrics_example describe_log_groups_example ''uid-1'')
              = ?t1 @ ?t2"
    using R1 [THEN conjunct2, THEN conjunct2, THEN conjunct2, THEN conjunct1] .
  let ?e = "Errorf ''unknown region''"
  let ?u = "[Call_im_Get ''uid-2'', Call_GetConfig moon_settings] :: (string, string) call list"
  have k2: "checkHealthMetrics im_example list_metrics_example ''uid-2'' = (Some ?e, ?u) \<and>
     checkHealthLogs im_example describe_log_groups_example ''uid-2'' = (Some ?e, ?u)"
    by (simp add: checkHealthMetrics_no_config [where inst = instance_moon]
          checkHealthLogs_no_config [where inst = instance_moon]
          im_example_simps instance_moon_default)
  note R2 = T [where pc = "''uid-2''" and m = "Some ?e" and l = "Some ?e"
                 and ?t1.0 = ?u and ?t2.0 = ?u, THEN conjunct1, rule_format, OF k2]
  have c5: "Status (fst (CheckHealth im_example list_metrics_example
                           describe_log_groups_example ''uid-2'')) = HealthStatusError"
    using R2 [THEN conjunct2, THEN conjunct1] by simp
  have c6: "Message (fst (CheckHealth im_example list_metrics_example
                            describe_log_groups_example ''uid-2''))
     = ''1. CloudWatch metrics query failed: unknown region'' @ [newline] @
       ''2. CloudWatch logs query failed: unknown region''"
    using R2 [THEN conjunct2, THEN conjunct2, THEN conjunct1] by simp
  have l2: "newline \<notin> set (Error (Errorf ''unknown region''))"
    by (simp add: newline_def)
  then have l2': "(\<forall>e. Some (Errorf ''unknown region'') = Some e \<longrightarrow> newline \<notin> set (Error e)) \<and>
            (\<forall>e. Some (Errorf ''unknown region'') = Some e \<longrightarrow> newline \<notin> set (Error e))"
    by simp
  have c7: "line_count (Message (fst (CheckHealth im_example list_metrics_example
                           describe_log_groups_example ''uid-2''))) = 2"
    using R2 [THEN conjunct2, THEN conjunct2, THEN conjunct2, THEN conjunct2] l2' by (rule mp)
  have i1: "Call_GetConfig home_settings
              \<in> set (snd (CheckHealth im_example list_metrics_example
                              describe_log_groups_example ''uid-1''))"
    by (simp add: c4)
  have c8: "auth_Region home_settings = Region (Settings instance_example)"
    using T1 [THEN conjunct2, THEN conjunct2, rule_format, OF im_example_simps(1) i1] .
  show ?thesis using c1 c2 c3 c4 c5 c6 l2 c7 c8 by simp
qed

text \<open>
  Claim C8 as stated fails: when the log group listing fails with an error whose text has
  two lines, the message of the health check has three.
\<close>

theorem CheckHealth_message_of_three_lines:
  "Message (fst (CheckHealth im_example list_metrics_example describe_log_groups_joined ''uid-1''))
     = ''1. Successfully queried the CloudWatch metrics API.'' @ [newline] @
       ''2. CloudWatch logs query failed: AccessDeniedException'' @ [newline] @
       ''ThrottlingException'' \<and>
   line_count
     (Message (fst (CheckHealth im_example list_metrics_example describe_log_groups_joined
                      ''uid-1''))) = 3 \<and>
   line_count
     (Message (fst (CheckHealth im_example list_metrics_example describe_log_groups_joined
                      ''uid-1''))) \<noteq> 2"
proof -
  let ?client = "NewMetricsClient (NewCWClient ''config for us-east-1'') 500"
  let ?params = "\<lparr>Namespace = ''AWS/Billing'', MetricName = ''EstimatedCharges''\<rparr>"
  let ?e = "Errorf (''AccessDeniedException'' @ [newline] @ ''ThrottlingException'')"
  let ?t1 = "[Call_im_Get ''uid-1'', Call_GetConfig home_settings,
              Call_ListMetricsWithPageLimit ?client ?params] :: (string, string) call list"
  let ?t2 = "[Call_im_Get ''uid-1'', Call_GetConfig home_settings,
              Call_DescribeLogGroups (NewLogsAPI ''config for us-east-1'') \<lparr>Limit = 1\<rparr>]
               :: (string, string) call list"
  have lm: "list_metrics_example ?client ?params = None"
    by (simp add: list_metrics_example_def)
  have k1: "checkHealthMetrics im_example list_metrics_example ''uid-1'' = (None, ?t1)"
    by (simp add: checkHealthMetrics_config [where inst = instance_example
                    and cfg = "''config for us-east-1''" and t = "[Call_GetConfig home_settings]"]
          im_example_simps instance_example_default limit_example lm)
  have k2: "checkHealthLogs im_example describe_log_groups_joined ''uid-1'' = (Some ?e, ?t2)"
    by (simp add: checkHealthLogs_config [where inst = instance_example
                    and cfg = "''config for us-east-1''" and t = "[Call_GetConfig home_settings]"]
          im_example_simps instance_example_default describe_log_groups_joined_def)
  have m: "Message (fst (CheckHealth im_example list_metrics_example describe_log_groups_joined
                           ''uid-1''))
     = ''1. Successfully queried the CloudWatch metrics API.'' @ [newline] @
       ''2. CloudWatch logs query failed: AccessDeniedException'' @ [newline] @
       ''ThrottlingException''"
    by (simp add: CheckHealth_eq [OF k1 k2])
  have n: "line_count (''1. Successfully queried the CloudWatch metrics API.'' @ [newline] @
       ''2. CloudWatch logs query failed: AccessDeniedException'' @ [newline] @
       ''ThrottlingException'') = 3"
    by (simp add: line_count_def newline_def)
  show ?thesis using m n by simp
qed

end
